theory Spec2Isabelle
  imports Main "HOL-Library.Sublist"
begin

section \<open>Template synchronisation engine of platform-idp\<close>

text \<open>
  The development embeds \<^verbatim>\<open>src/lib/github/repo-cloner.ts\<close> (class
  \<^verbatim>\<open>GitHubRepoCloner\<close>) and the drift check \<^verbatim>\<open>GET\<close> of the
  template-updates route. The remote hosting API is not part of the repository: every
  Octokit call is a field of a record of functions over an arbitrary world type \<open>'w\<close>,
  so each theorem holds for every behaviour of the remote side. A call returns either an
  error (the rejected promise) or its data, and the next world.
\<close>

subsection \<open>Errors, strings and JavaScript truthiness\<close>

text \<open>A thrown value: \<^verbatim>\<open>error.status\<close> (set by Octokit's request errors, absent on
  \<^verbatim>\<open>new Error(msg)\<close>) and \<^verbatim>\<open>error.message\<close>.\<close>

datatype api_error = ApiError (err_status: "nat option") (err_message: string)

definition js_Error :: "string \<Rightarrow> api_error" where
  "js_Error msg = ApiError None msg"

text \<open>A string-valued expression that may be \<^verbatim>\<open>undefined\<close> or \<^verbatim>\<open>null\<close> is a
  \<open>string option\<close>; it is truthy when present and non-empty.\<close>

definition truthy :: "string option \<Rightarrow> bool" where
  "truthy v = (case v of None \<Rightarrow> False | Some s \<Rightarrow> s \<noteq> [])"

text \<open>\<^verbatim>\<open>a || b\<close> with a string default.\<close>

definition or_default :: "string option \<Rightarrow> string \<Rightarrow> string" where
  "or_default v d = (case v of None \<Rightarrow> d | Some s \<Rightarrow> if s = [] then d else s)"

text \<open>\<^verbatim>\<open>s.includes(sub)\<close>.\<close>

fun str_includes :: "string \<Rightarrow> string \<Rightarrow> bool" where
  "str_includes [] sub = (sub = [])"
| "str_includes (c # s) sub = (take (length sub) (c # s) = sub \<or> str_includes s sub)"

text \<open>\<^verbatim>\<open>s.startsWith(pre)\<close>, the meaning of a pattern \<^verbatim>\<open>/^pre/\<close>.\<close>

definition starts_with :: "string \<Rightarrow> string \<Rightarrow> bool" where
  "starts_with s pre = (take (length pre) s = pre)"

text \<open>Case folding of the regular expression flag \<^verbatim>\<open>i\<close> on the ASCII letters.\<close>

definition upper_char :: "char \<Rightarrow> char" where
  "upper_char c =
     (if of_char c \<ge> (97::nat) \<and> of_char c \<le> (122::nat) then char_of (of_char c - (32::nat)) else c)"

definition ci_equals :: "string \<Rightarrow> string \<Rightarrow> bool" where
  "ci_equals s t = (map upper_char s = map upper_char t)"

text \<open>Decimal rendering of a number in a template string.\<close>

fun digits :: "nat \<Rightarrow> nat \<Rightarrow> string" where
  "digits 0 n = []"
| "digits (Suc fuel) n =
     (if n < 10 then [char_of (48 + n)] else digits fuel (n div 10) @ [char_of (48 + n mod 10)])"

definition show_nat :: "nat \<Rightarrow> string" where
  "show_nat n = digits (Suc n) n"

definition newline :: string where
  "newline = [CHR 0x0A]"

subsection \<open>Data exchanged with the hosting API\<close>

datatype client = Octokit (client_auth: "string option")

record auth_user =
  login :: string

record repo_data =
  default_branch :: "string option"
  description :: "string option"
  html_url :: string

record git_ref =
  object_sha :: string

record git_commit =
  commit_sha :: string
  commit_tree_sha :: string

record tree_item =
  item_path :: "string option"
  item_type :: "string option"
  item_sha :: "string option"

record blob_data =
  blob_encoding :: string
  blob_content :: string

record commit_author =
  author_name :: "string option"
  author_date :: "string option"

record listed_commit =
  listed_sha :: string
  listed_message :: string
  listed_author :: "commit_author option"

record branch_data =
  branch_name :: string

record pr_reviews =
  dismiss_stale_reviews :: "bool option"
  require_code_owner_reviews :: "bool option"
  required_approving_review_count :: "nat option"

record simplified_reviews =
  s_dismiss_stale_reviews :: bool
  s_require_code_owner_reviews :: bool
  s_required_approving_review_count :: nat

record protection_rules =
  required_pull_request_reviews :: "pr_reviews option"

record content_data =
  content_sha :: "string option"

record repo_file =
  file_path :: string
  file_content :: string

record tree_entry =
  entry_path :: string
  entry_mode :: string
  entry_type :: string
  entry_sha :: string

record pull_request =
  pr_html_url :: string

subsection \<open>Requests, responses and the observable trace\<close>

datatype request =
    UsersGetAuthenticated client
  | ReposGet client string string
  | ReposCreateForAuthenticatedUser client string string bool bool
  | ReposGetContent client string string string
  | ReposDeleteFile client string string string string string
  | ReposCreateOrUpdateFileContents client string string string string string "string \<times> string"
  | ReposGetBranchProtection client string string string
  | ReposUpdateBranchProtection client string string string "simplified_reviews option"
  | ReposListCommits client string string "string option" nat
  | ReposListBranches client string string nat
  | GitGetRef client string string string
  | GitGetCommit client string string string
  | GitGetTree client string string string string
  | GitGetBlob client string string string
  | GitCreateBlob client string string string string
  | GitCreateTree client string string "tree_entry list" "string option"
  | GitCreateCommit client string string string string "string list"
  | GitUpdateRef client string string string string "bool option"
  | GitCreateRef client string string string string
  | PullsCreate client string string string string string string

datatype response =
    RUser auth_user
  | RRepo repo_data
  | RContent content_data
  | RUnit
  | RProtection protection_rules
  | RCommits "listed_commit list"
  | RBranches "branch_data list"
  | RRef git_ref
  | RCommit git_commit
  | RTree "tree_item list"
  | RBlob blob_data
  | RSha string
  | RPull pull_request

datatype level = Warn | Error

text \<open>The trace records every request with its outcome, every \<^verbatim>\<open>setTimeout\<close> pause
  (milliseconds) and every \<^verbatim>\<open>console.warn\<close> and \<^verbatim>\<open>console.error\<close> line.
  Progress lines of \<^verbatim>\<open>console.log\<close> are not recorded.\<close>

datatype event =
    Call request "api_error + response"
  | Sleep nat
  | Console level string

subsection \<open>The hosting API and the runtime\<close>

record 'w api =
  api_users_getAuthenticated :: "client \<Rightarrow> 'w \<Rightarrow> (api_error + auth_user) \<times> 'w"
  api_repos_get :: "client \<Rightarrow> string \<Rightarrow> string \<Rightarrow> 'w \<Rightarrow> (api_error + repo_data) \<times> 'w"
  api_repos_createForAuthenticatedUser ::
    "client \<Rightarrow> string \<Rightarrow> string \<Rightarrow> bool \<Rightarrow> bool \<Rightarrow> 'w \<Rightarrow> (api_error + repo_data) \<times> 'w"
  api_repos_getContent ::
    "client \<Rightarrow> string \<Rightarrow> string \<Rightarrow> string \<Rightarrow> 'w \<Rightarrow> (api_error + content_data) \<times> 'w"
  api_repos_deleteFile ::
    "client \<Rightarrow> string \<Rightarrow> string \<Rightarrow> string \<Rightarrow> string \<Rightarrow> string \<Rightarrow> 'w \<Rightarrow> (api_error + unit) \<times> 'w"
  api_repos_createOrUpdateFileContents ::
    "client \<Rightarrow> string \<Rightarrow> string \<Rightarrow> string \<Rightarrow> string \<Rightarrow> string \<Rightarrow> string \<times> string \<Rightarrow> 'w
       \<Rightarrow> (api_error + unit) \<times> 'w"
  api_repos_getBranchProtection ::
    "client \<Rightarrow> string \<Rightarrow> string \<Rightarrow> string \<Rightarrow> 'w \<Rightarrow> (api_error + protection_rules) \<times> 'w"
  api_repos_updateBranchProtection ::
    "client \<Rightarrow> string \<Rightarrow> string \<Rightarrow> string \<Rightarrow> simplified_reviews option \<Rightarrow> 'w
       \<Rightarrow> (api_error + unit) \<times> 'w"
  api_repos_listCommits ::
    "client \<Rightarrow> string \<Rightarrow> string \<Rightarrow> string option \<Rightarrow> nat \<Rightarrow> 'w
       \<Rightarrow> (api_error + listed_commit list) \<times> 'w"
  api_repos_listBranches ::
    "client \<Rightarrow> string \<Rightarrow> string \<Rightarrow> nat \<Rightarrow> 'w \<Rightarrow> (api_error + branch_data list) \<times> 'w"
  api_git_getRef :: "client \<Rightarrow> string \<Rightarrow> string \<Rightarrow> string \<Rightarrow> 'w \<Rightarrow> (api_error + git_ref) \<times> 'w"
  api_git_getCommit ::
    "client \<Rightarrow> string \<Rightarrow> string \<Rightarrow> string \<Rightarrow> 'w \<Rightarrow> (api_error + git_commit) \<times> 'w"
  api_git_getTree ::
    "client \<Rightarrow> string \<Rightarrow> string \<Rightarrow> string \<Rightarrow> string \<Rightarrow> 'w \<Rightarrow> (api_error + tree_item list) \<times> 'w"
  api_git_getBlob ::
    "client \<Rightarrow> string \<Rightarrow> string \<Rightarrow> string \<Rightarrow> 'w \<Rightarrow> (api_error + blob_data) \<times> 'w"
  api_git_createBlob ::
    "client \<Rightarrow> string \<Rightarrow> string \<Rightarrow> string \<Rightarrow> string \<Rightarrow> 'w \<Rightarrow> (api_error + string) \<times> 'w"
  api_git_createTree ::
    "client \<Rightarrow> string \<Rightarrow> string \<Rightarrow> tree_entry list \<Rightarrow> string option \<Rightarrow> 'w
       \<Rightarrow> (api_error + string) \<times> 'w"
  api_git_createCommit ::
    "client \<Rightarrow> string \<Rightarrow> string \<Rightarrow> string \<Rightarrow> string \<Rightarrow> string list \<Rightarrow> 'w
       \<Rightarrow> (api_error + git_commit) \<times> 'w"
  api_git_updateRef ::
    "client \<Rightarrow> string \<Rightarrow> string \<Rightarrow> string \<Rightarrow> string \<Rightarrow> bool option \<Rightarrow> 'w
       \<Rightarrow> (api_error + unit) \<times> 'w"
  api_git_createRef ::
    "client \<Rightarrow> string \<Rightarrow> string \<Rightarrow> string \<Rightarrow> string \<Rightarrow> 'w \<Rightarrow> (api_error + unit) \<times> 'w"
  api_pulls_create ::
    "client \<Rightarrow> string \<Rightarrow> string \<Rightarrow> string \<Rightarrow> string \<Rightarrow> string \<Rightarrow> string \<Rightarrow> 'w
       \<Rightarrow> (api_error + pull_request) \<times> 'w"
  rt_wait :: "nat \<Rightarrow> 'w \<Rightarrow> 'w"
  rt_now_iso :: "'w \<Rightarrow> string"
  rt_base64 :: "string \<Rightarrow> string"
  rt_base64_decode :: "string \<Rightarrow> string"
  rt_inspect :: "api_error \<Rightarrow> string"


subsection \<open>Asynchronous computations\<close>

text \<open>
  An \<^verbatim>\<open>async\<close> function is a world transformer returning the settled promise
  (\<open>Inl\<close> a rejection, \<open>Inr\<close> the value), the next world and the events it produced.
\<close>

type_synonym ('w, 'a) io = "'w \<Rightarrow> (api_error + 'a) \<times> 'w \<times> event list"

definition ret :: "'a \<Rightarrow> ('w, 'a) io" where
  "ret x = (\<lambda>w. (Inr x, w, []))"

definition throw :: "api_error \<Rightarrow> ('w, 'a) io" where
  "throw e = (\<lambda>w. (Inl e, w, []))"

definition bnd :: "('w, 'a) io \<Rightarrow> ('a \<Rightarrow> ('w, 'b) io) \<Rightarrow> ('w, 'b) io" where
  "bnd m f = (\<lambda>w. case m w of
       (Inl e, w', ev) \<Rightarrow> (Inl e, w', ev)
     | (Inr x, w', ev) \<Rightarrow> (case f x w' of (r, w'', ev') \<Rightarrow> (r, w'', ev @ ev')))"

text \<open>\<^verbatim>\<open>try { m } catch (e) { h e }\<close>.\<close>

definition try_catch :: "('w, 'a) io \<Rightarrow> (api_error \<Rightarrow> ('w, 'a) io) \<Rightarrow> ('w, 'a) io" where
  "try_catch m h = (\<lambda>w. case m w of
       (Inr x, w', ev) \<Rightarrow> (Inr x, w', ev)
     | (Inl e, w', ev) \<Rightarrow> (case h e w' of (r, w'', ev') \<Rightarrow> (r, w'', ev @ ev')))"

text \<open>\<^verbatim>\<open>await new Promise(resolve => setTimeout(resolve, ms))\<close>.\<close>

definition sleep :: "'w api \<Rightarrow> nat \<Rightarrow> ('w, unit) io" where
  "sleep api ms = (\<lambda>w. (Inr (), rt_wait api ms w, [Sleep ms]))"

text \<open>\<^verbatim>\<open>console.warn\<close> and \<^verbatim>\<open>console.error\<close>; the arguments are joined by a space. Where
  the source passes \<^verbatim>\<open>error.message\<close> the line holds the message; where it passes the error
  object itself the line holds what the runtime prints for it, \<open>rt_inspect\<close>.\<close>

definition console :: "level \<Rightarrow> string \<Rightarrow> ('w, unit) io" where
  "console lvl line = (\<lambda>w. (Inr (), w, [Console lvl line]))"

text \<open>\<^verbatim>\<open>new Date().toISOString()\<close>.\<close>

definition now_iso :: "'w api \<Rightarrow> ('w, string) io" where
  "now_iso api = (\<lambda>w. (Inr (rt_now_iso api w), w, []))"

definition call :: "request \<Rightarrow> ('a \<Rightarrow> response) \<Rightarrow> ('w \<Rightarrow> (api_error + 'a) \<times> 'w) \<Rightarrow> ('w, 'a) io" where
  "call req wrap f = (\<lambda>w. case f w of (r, w') \<Rightarrow> (r, w', [Call req (map_sum id wrap r)]))"

text \<open>
  \<^verbatim>\<open>await Promise.all(ms)\<close>. In the source the members of a batch are started together,
  their requests are answered in any order, and on the first rejection the others are
  left running. The model fixes one schedule among these: each member runs to completion
  before the next one starts, so the first rejection in time is the first one in list
  order, and the members after it have completed when the rejection is handled. The
  values are returned in list order, as in the source. The theorems below constrain the
  events of a batch by their kind, not by their order.
\<close>

fun promise_all :: "('w, 'a) io list \<Rightarrow> ('w, 'a list) io" where
  "promise_all [] = ret []"
| "promise_all (m # ms) = (\<lambda>w. case m w of (r, w', ev) \<Rightarrow>
      (case promise_all ms w' of (rs, w'', ev') \<Rightarrow>
        ((case r of Inl e \<Rightarrow> Inl e
          | Inr x \<Rightarrow> (case rs of Inl e' \<Rightarrow> Inl e' | Inr xs \<Rightarrow> Inr (x # xs))),
         w'', ev @ ev')))"

subsection \<open>Octokit calls\<close>

definition users_getAuthenticated :: "'w api \<Rightarrow> client \<Rightarrow> ('w, auth_user) io" where
  "users_getAuthenticated api c =
     call (UsersGetAuthenticated c) RUser (api_users_getAuthenticated api c)"

definition repos_get :: "'w api \<Rightarrow> client \<Rightarrow> string \<Rightarrow> string \<Rightarrow> ('w, repo_data) io" where
  "repos_get api c owner repo = call (ReposGet c owner repo) RRepo (api_repos_get api c owner repo)"

definition repos_createForAuthenticatedUser ::
  "'w api \<Rightarrow> client \<Rightarrow> string \<Rightarrow> string \<Rightarrow> bool \<Rightarrow> bool \<Rightarrow> ('w, repo_data) io" where
  "repos_createForAuthenticatedUser api c name descr private auto_init =
     call (ReposCreateForAuthenticatedUser c name descr private auto_init) RRepo
       (api_repos_createForAuthenticatedUser api c name descr private auto_init)"

definition repos_getContent ::
  "'w api \<Rightarrow> client \<Rightarrow> string \<Rightarrow> string \<Rightarrow> string \<Rightarrow> ('w, content_data) io" where
  "repos_getContent api c owner repo path =
     call (ReposGetContent c owner repo path) RContent (api_repos_getContent api c owner repo path)"

definition repos_deleteFile ::
  "'w api \<Rightarrow> client \<Rightarrow> string \<Rightarrow> string \<Rightarrow> string \<Rightarrow> string \<Rightarrow> string \<Rightarrow> ('w, unit) io" where
  "repos_deleteFile api c owner repo path msg sha =
     call (ReposDeleteFile c owner repo path msg sha) (\<lambda>_. RUnit)
       (api_repos_deleteFile api c owner repo path msg sha)"

definition repos_createOrUpdateFileContents ::
  "'w api \<Rightarrow> client \<Rightarrow> string \<Rightarrow> string \<Rightarrow> string \<Rightarrow> string \<Rightarrow> string \<Rightarrow> string \<times> string
     \<Rightarrow> ('w, unit) io" where
  "repos_createOrUpdateFileContents api c owner repo path msg content committer =
     call (ReposCreateOrUpdateFileContents c owner repo path msg content committer) (\<lambda>_. RUnit)
       (api_repos_createOrUpdateFileContents api c owner repo path msg content committer)"

definition repos_getBranchProtection ::
  "'w api \<Rightarrow> client \<Rightarrow> string \<Rightarrow> string \<Rightarrow> string \<Rightarrow> ('w, protection_rules) io" where
  "repos_getBranchProtection api c owner repo branch =
     call (ReposGetBranchProtection c owner repo branch) RProtection
       (api_repos_getBranchProtection api c owner repo branch)"

text \<open>The remaining arguments of \<^verbatim>\<open>updateBranchProtection\<close> are constants of the source
  (\<^verbatim>\<open>required_status_checks: null, enforce_admins: false, restrictions: null,
  allow_force_pushes: false, allow_deletions: false\<close>).\<close>

definition repos_updateBranchProtection ::
  "'w api \<Rightarrow> client \<Rightarrow> string \<Rightarrow> string \<Rightarrow> string \<Rightarrow> simplified_reviews option \<Rightarrow> ('w, unit) io" where
  "repos_updateBranchProtection api c owner repo branch reviews =
     call (ReposUpdateBranchProtection c owner repo branch reviews) (\<lambda>_. RUnit)
       (api_repos_updateBranchProtection api c owner repo branch reviews)"

definition repos_listCommits ::
  "'w api \<Rightarrow> client \<Rightarrow> string \<Rightarrow> string \<Rightarrow> string option \<Rightarrow> nat \<Rightarrow> ('w, listed_commit list) io" where
  "repos_listCommits api c owner repo sha per_page =
     call (ReposListCommits c owner repo sha per_page) RCommits
       (api_repos_listCommits api c owner repo sha per_page)"

definition repos_listBranches ::
  "'w api \<Rightarrow> client \<Rightarrow> string \<Rightarrow> string \<Rightarrow> nat \<Rightarrow> ('w, branch_data list) io" where
  "repos_listBranches api c owner repo per_page =
     call (ReposListBranches c owner repo per_page) RBranches
       (api_repos_listBranches api c owner repo per_page)"

definition git_getRef :: "'w api \<Rightarrow> client \<Rightarrow> string \<Rightarrow> string \<Rightarrow> string \<Rightarrow> ('w, git_ref) io" where
  "git_getRef api c owner repo ref =
     call (GitGetRef c owner repo ref) RRef (api_git_getRef api c owner repo ref)"

definition git_getCommit ::
  "'w api \<Rightarrow> client \<Rightarrow> string \<Rightarrow> string \<Rightarrow> string \<Rightarrow> ('w, git_commit) io" where
  "git_getCommit api c owner repo sha =
     call (GitGetCommit c owner repo sha) RCommit (api_git_getCommit api c owner repo sha)"

definition git_getTree ::
  "'w api \<Rightarrow> client \<Rightarrow> string \<Rightarrow> string \<Rightarrow> string \<Rightarrow> string \<Rightarrow> ('w, tree_item list) io" where
  "git_getTree api c owner repo tree_sha recursive =
     call (GitGetTree c owner repo tree_sha recursive) RTree
       (api_git_getTree api c owner repo tree_sha recursive)"

definition git_getBlob :: "'w api \<Rightarrow> client \<Rightarrow> string \<Rightarrow> string \<Rightarrow> string \<Rightarrow> ('w, blob_data) io" where
  "git_getBlob api c owner repo file_sha =
     call (GitGetBlob c owner repo file_sha) RBlob (api_git_getBlob api c owner repo file_sha)"

definition git_createBlob ::
  "'w api \<Rightarrow> client \<Rightarrow> string \<Rightarrow> string \<Rightarrow> string \<Rightarrow> string \<Rightarrow> ('w, string) io" where
  "git_createBlob api c owner repo content encoding =
     call (GitCreateBlob c owner repo content encoding) RSha
       (api_git_createBlob api c owner repo content encoding)"

definition git_createTree ::
  "'w api \<Rightarrow> client \<Rightarrow> string \<Rightarrow> string \<Rightarrow> tree_entry list \<Rightarrow> string option \<Rightarrow> ('w, string) io" where
  "git_createTree api c owner repo tree base_tree =
     call (GitCreateTree c owner repo tree base_tree) RSha
       (api_git_createTree api c owner repo tree base_tree)"

definition git_createCommit ::
  "'w api \<Rightarrow> client \<Rightarrow> string \<Rightarrow> string \<Rightarrow> string \<Rightarrow> string \<Rightarrow> string list \<Rightarrow> ('w, git_commit) io" where
  "git_createCommit api c owner repo msg tree parents =
     call (GitCreateCommit c owner repo msg tree parents) RCommit
       (api_git_createCommit api c owner repo msg tree parents)"

definition git_updateRef ::
  "'w api \<Rightarrow> client \<Rightarrow> string \<Rightarrow> string \<Rightarrow> string \<Rightarrow> string \<Rightarrow> bool option \<Rightarrow> ('w, unit) io" where
  "git_updateRef api c owner repo ref sha force =
     call (GitUpdateRef c owner repo ref sha force) (\<lambda>_. RUnit)
       (api_git_updateRef api c owner repo ref sha force)"

definition git_createRef ::
  "'w api \<Rightarrow> client \<Rightarrow> string \<Rightarrow> string \<Rightarrow> string \<Rightarrow> string \<Rightarrow> ('w, unit) io" where
  "git_createRef api c owner repo ref sha =
     call (GitCreateRef c owner repo ref sha) (\<lambda>_. RUnit) (api_git_createRef api c owner repo ref sha)"

definition pulls_create ::
  "'w api \<Rightarrow> client \<Rightarrow> string \<Rightarrow> string \<Rightarrow> string \<Rightarrow> string \<Rightarrow> string \<Rightarrow> string
     \<Rightarrow> ('w, pull_request) io" where
  "pulls_create api c owner repo title body head base =
     call (PullsCreate c owner repo title body head base) RPull
       (api_pulls_create api c owner repo title body head base)"


subsection \<open>The cloner object\<close>

record cloner =
  octokit :: client
  sourceOctokit :: client

text \<open>The constructor; \<open>env_token\<close> is \<^verbatim>\<open>process.env.GITHUB_TOKEN\<close>.\<close>

definition GitHubRepoCloner :: "string option \<Rightarrow> string option \<Rightarrow> string option \<Rightarrow> cloner" where
  "GitHubRepoCloner env_token token sourceToken =
     (let oc = Octokit (if truthy token then token else env_token)
      in \<lparr>octokit = oc,
          sourceOctokit = (if truthy sourceToken then Octokit sourceToken else oc)\<rparr>)"

subsection \<open>Content Enumerator: \<^verbatim>\<open>getAllFiles\<close>\<close>

text \<open>One member of a batch: the blob of a tree item is fetched and decoded; a failure is
  logged and the item contributes no file.\<close>

definition fetch_item ::
  "'w api \<Rightarrow> cloner \<Rightarrow> string \<Rightarrow> string \<Rightarrow> tree_item \<Rightarrow> ('w, repo_file list) io" where
  "fetch_item api this owner repo item =
     (case (item_sha item, item_path item) of
        (Some sha, Some path) \<Rightarrow>
          if sha \<noteq> [] \<and> path \<noteq> [] then
            try_catch
              (bnd (git_getBlob api (sourceOctokit this) owner repo sha) (\<lambda>blob.
                 let content = (if blob_encoding blob = ''base64''
                                then rt_base64_decode api (blob_content blob)
                                else blob_content blob)
                 in ret [\<lparr>file_path = path, file_content = content\<rparr>]))
              (\<lambda>error.
                 bnd (console Error (''Error fetching '' @ path @ '': '' @ err_message error))
                   (\<lambda>_. ret []))
          else ret []
      | _ \<Rightarrow> ret [])"

function getAllFiles_loop ::
  "'w api \<Rightarrow> cloner \<Rightarrow> string \<Rightarrow> string \<Rightarrow> tree_item list \<Rightarrow> nat \<Rightarrow> repo_file list
     \<Rightarrow> ('w, repo_file list) io" where
  "getAllFiles_loop api this owner repo blobs i files =
     (if i < length blobs then
        bnd (promise_all (map (fetch_item api this owner repo) (take 5 (drop i blobs)))) (\<lambda>pushed.
        bnd (if i + 5 < length blobs then sleep api 300 else ret ()) (\<lambda>_.
        getAllFiles_loop api this owner repo blobs (i + 5) (files @ concat pushed)))
      else ret files)"
  by pat_completeness auto
termination
  by (relation "measure (\<lambda>(api, this, owner, repo, blobs, i, files). length blobs - i)") auto

declare getAllFiles_loop.simps [simp del]

definition getAllFiles ::
  "'w api \<Rightarrow> cloner \<Rightarrow> string \<Rightarrow> string \<Rightarrow> string \<Rightarrow> ('w, repo_file list) io" where
  "getAllFiles api this owner repo ref =
     try_catch
       (bnd (try_catch
               (bnd (git_getRef api (sourceOctokit this) owner repo (''heads/'' @ ref))
                  (\<lambda>refData. ret (Some (object_sha refData))))
               (\<lambda>error.
                  try_catch
                    (bnd (git_getCommit api (sourceOctokit this) owner repo ref)
                       (\<lambda>commit. ret (Some (commit_sha commit))))
                    (\<lambda>_. bnd (console Error
                                (''Reference '' @ ref @ '' not found in '' @ owner @ ''/'' @ repo))
                            (\<lambda>_. ret None))))
          (\<lambda>commitSha.
             case commitSha of
               None \<Rightarrow> ret []
             | Some sha \<Rightarrow>
                 bnd (git_getTree api (sourceOctokit this) owner repo sha ''true'') (\<lambda>tree.
                   let blobs = filter (\<lambda>item. item_type item = Some ''blob'') tree
                   in getAllFiles_loop api this owner repo blobs 0 [])))
       (\<lambda>error.
          bnd (console Error (''Error getting files: '' @ err_message error)) (\<lambda>_.
            if err_status error = Some 409
               \<and> str_includes (err_message error) ''Git Repository is empty''
            then ret []
            else throw error))"

definition getBranches :: "'w api \<Rightarrow> cloner \<Rightarrow> string \<Rightarrow> string \<Rightarrow> ('w, branch_data list) io" where
  "getBranches api this owner repo =
     try_catch (repos_listBranches api (sourceOctokit this) owner repo 100)
       (\<lambda>error. bnd (console Error (''Error getting branches: '' @ rt_inspect api error))
                   (\<lambda>_. ret []))"

subsection \<open>Object Builder: \<^verbatim>\<open>createTree\<close>\<close>

text \<open>The line of \<^verbatim>\<open>console.error(`Failed to create blob for ${file.path}:`, error.message)\<close>.\<close>

definition blob_failure_line :: "string \<Rightarrow> api_error \<Rightarrow> string" where
  "blob_failure_line path error = ''Failed to create blob for '' @ path @ '': '' @ err_message error"

text \<open>The loop \<^verbatim>\<open>for (let i = 0; i < retries; i++)\<close> of \<^verbatim>\<open>createBlobWithRetry\<close>, entered
  at attempt index \<open>i\<close>.\<close>

function createBlobWithRetry ::
  "'w api \<Rightarrow> cloner \<Rightarrow> string \<Rightarrow> string \<Rightarrow> repo_file \<Rightarrow> nat \<Rightarrow> nat \<Rightarrow> ('w, string) io" where
  "createBlobWithRetry api this owner repo file retries i =
     (if i < retries then
        try_catch
          (git_createBlob api (octokit this) owner repo (rt_base64 api (file_content file)) ''base64'')
          (\<lambda>error.
             if i = retries - 1 then
               bnd (console Error (blob_failure_line (file_path file) error))
                 (\<lambda>_. throw error)
             else
               bnd (sleep api (2000 * (i + 1)))
                 (\<lambda>_. createBlobWithRetry api this owner repo file retries (i + 1)))
      else throw (js_Error (''Failed to create blob for '' @ file_path file)))"
  by pat_completeness auto
termination
  by (relation "measure (\<lambda>(api, this, owner, repo, file, retries, i). retries - i)") auto

declare createBlobWithRetry.simps [simp del]

definition blob_entry ::
  "'w api \<Rightarrow> cloner \<Rightarrow> string \<Rightarrow> string \<Rightarrow> repo_file \<Rightarrow> ('w, tree_entry) io" where
  "blob_entry api this owner repo file =
     bnd (createBlobWithRetry api this owner repo file 3 0) (\<lambda>sha.
       ret \<lparr>entry_path = file_path file, entry_mode = ''100644'', entry_type = ''blob'',
            entry_sha = sha\<rparr>)"

function createTree_loop ::
  "'w api \<Rightarrow> cloner \<Rightarrow> string \<Rightarrow> string \<Rightarrow> repo_file list \<Rightarrow> nat \<Rightarrow> tree_entry list
     \<Rightarrow> ('w, tree_entry list) io" where
  "createTree_loop api this owner repo files i tree =
     (if i < length files then
        bnd (promise_all (map (blob_entry api this owner repo) (take 5 (drop i files))))
          (\<lambda>batchResults.
        bnd (if i + 5 < length files then sleep api 500 else ret ()) (\<lambda>_.
        createTree_loop api this owner repo files (i + 5) (tree @ batchResults)))
      else ret tree)"
  by pat_completeness auto
termination
  by (relation "measure (\<lambda>(api, this, owner, repo, files, i, tree). length files - i)") auto

declare createTree_loop.simps [simp del]

text \<open>The line of \<^verbatim>\<open>console.error('Error creating tree:', error.message)\<close>.\<close>

definition tree_failure_line :: "api_error \<Rightarrow> string" where
  "tree_failure_line error = ''Error creating tree: '' @ err_message error"

definition createTree ::
  "'w api \<Rightarrow> cloner \<Rightarrow> string \<Rightarrow> string \<Rightarrow> repo_file list \<Rightarrow> string option \<Rightarrow> ('w, string) io" where
  "createTree api this owner repo files baseTree =
     bnd (sleep api 1000) (\<lambda>_.
     bnd (createTree_loop api this owner repo files 0 []) (\<lambda>tree.
     try_catch
       (git_createTree api (octokit this) owner repo tree (if truthy baseTree then baseTree else None))
       (\<lambda>error.
          bnd (console Error (tree_failure_line error)) (\<lambda>_.
            if err_status error = Some 404 \<and> truthy baseTree then
              throw (js_Error (''Base tree SHA '' @ or_default baseTree []
                                 @ '' not found. The repository state may have changed.''))
            else throw error))))"

subsection \<open>Commit Writer: \<^verbatim>\<open>createCommit\<close>\<close>

definition createCommit ::
  "'w api \<Rightarrow> cloner \<Rightarrow> string \<Rightarrow> string \<Rightarrow> string \<Rightarrow> string \<Rightarrow> string list \<Rightarrow> ('w, git_commit) io" where
  "createCommit api this owner repo treeSha msg parents =
     git_createCommit api (octokit this) owner repo msg treeSha parents"


subsection \<open>Sync Engine: \<^verbatim>\<open>syncWithTemplate\<close>\<close>

record sync_options =
  sourceOwner :: string
  sourceRepo :: string
  targetOwner :: string
  targetRepo :: string
  targetBranch :: "string option"
  createPullRequest :: "bool option"
  sourceToken :: "string option"
  commitMessage :: "string option"
  directToMain :: "bool option"

text \<open>The returned object; the early "nothing to sync" return has neither
  \<^verbatim>\<open>syncBranch\<close> nor \<^verbatim>\<open>pullRequestUrl\<close>.\<close>

record sync_result =
  success :: bool
  filesCount :: nat
  syncBranch :: "string option"
  pullRequestUrl :: "string option"
  message :: string

text \<open>The denylist \<^verbatim>\<open>skipPatterns\<close>: \<^verbatim>\<open>/^\.git\//\<close>, \<^verbatim>\<open>/^node_modules\//\<close>,
  \<^verbatim>\<open>/^\.env/\<close>, \<^verbatim>\<open>/^README\.md$/i\<close>, \<^verbatim>\<open>/^LICENSE$/i\<close>, each as its
  \<^verbatim>\<open>test\<close> function.\<close>

definition skipPatterns :: "(string \<Rightarrow> bool) list" where
  "skipPatterns =
     [\<lambda>p. starts_with p ''.git/'',
      \<lambda>p. starts_with p ''node_modules/'',
      \<lambda>p. starts_with p ''.env'',
      \<lambda>p. ci_equals p ''README.md'',
      \<lambda>p. ci_equals p ''LICENSE'']"

definition filesToSync_of :: "repo_file list \<Rightarrow> repo_file list" where
  "filesToSync_of files =
     filter (\<lambda>file. \<not> list_ex (\<lambda>pattern. pattern (file_path file)) skipPatterns) files"

text \<open>\<^verbatim>\<open>now.toISOString().replace(/[:.]/g, '-').slice(0, 19)\<close> behind the branch prefix.\<close>

definition generated_branch_name :: "string \<Rightarrow> string" where
  "generated_branch_name isoString =
     ''sync-template-''
       @ take 19 (map (\<lambda>c. if c = CHR '':'' \<or> c = CHR ''.'' then CHR ''-'' else c) isoString)"

text \<open>The default commit message, a template literal with the \<^verbatim>\<open>template-sha\<close> trailer.\<close>

definition default_commit_message :: "string \<Rightarrow> string \<Rightarrow> string \<Rightarrow> string" where
  "default_commit_message sOwner sRepo sha =
     ''Sync with template '' @ sOwner @ ''/'' @ sRepo @ newline @ newline
       @ ''template-sha: '' @ sha"

definition listed_author_name :: "listed_commit \<Rightarrow> string option" where
  "listed_author_name c = (case listed_author c of None \<Rightarrow> None | Some a \<Rightarrow> author_name a)"

definition listed_author_date :: "listed_commit \<Rightarrow> string option" where
  "listed_author_date c = (case listed_author c of None \<Rightarrow> None | Some a \<Rightarrow> author_date a)"

definition pull_request_title :: "string \<Rightarrow> string \<Rightarrow> string" where
  "pull_request_title sOwner sRepo = ''[sync-template] Update from '' @ sOwner @ ''/'' @ sRepo"

text \<open>The closing line of the pull-request body,
  \<^verbatim>\<open><!-- template-sha: ${latestTemplateCommit.sha} -->\<close>.\<close>

definition template_sha_comment :: "string \<Rightarrow> string" where
  "template_sha_comment sha = ''<!-- template-sha: '' @ sha @ '' -->''"

definition pull_request_body :: "string \<Rightarrow> string \<Rightarrow> listed_commit \<Rightarrow> nat \<Rightarrow> string" where
  "pull_request_body sOwner sRepo latestTemplateCommit n =
     ''This pull request syncs your project with the latest changes from the template repository.''
       @ newline @ newline
     @ ''## Template Information'' @ newline
     @ ''- **Template**: '' @ sOwner @ ''/'' @ sRepo @ newline
     @ ''- **Template Commit**: '' @ listed_sha latestTemplateCommit @ newline
     @ ''- **Files Updated**: '' @ show_nat n @ newline @ newline
     @ ''## Latest Template Commit'' @ newline
     @ ''- **Message**: '' @ listed_message latestTemplateCommit @ newline
     @ ''- **Author**: '' @ or_default (listed_author_name latestTemplateCommit) ''Unknown'' @ newline
     @ ''- **Date**: '' @ or_default (listed_author_date latestTemplateCommit) ''Unknown''
       @ newline @ newline
     @ ''## Review Guidelines'' @ newline
     @ ''Please review the changes carefully before merging:'' @ newline
     @ ''1. Check for any conflicts with your local modifications'' @ newline
     @ ''2. Ensure the updates don'' @ [CHR 0x27] @ ''t break your existing functionality'' @ newline
     @ ''3. Test the changes in a development environment if possible'' @ newline @ newline
     @ template_sha_comment (listed_sha latestTemplateCommit)"

text \<open>
  The body of \<^verbatim>\<open>syncWithTemplate\<close> follows; its numbered steps 4, 6-7, 9 and 12 are
  given as definitions of their own, named after the value each step computes, and the
  function itself sequences them as the source does.
\<close>

text \<open>Step 4, "Determine target branch name".\<close>

definition sync_branch_name :: "'w api \<Rightarrow> sync_options \<Rightarrow> string \<Rightarrow> ('w, string) io" where
  "sync_branch_name api options defaultBranch =
     (if (case directToMain options of None \<Rightarrow> False | Some b \<Rightarrow> b) then ret defaultBranch
      else if truthy (targetBranch options) then ret (or_default (targetBranch options) [])
      else bnd (now_iso api) (\<lambda>isoString. ret (generated_branch_name isoString)))"

text \<open>Steps 6 and 7, "Create or checkout the sync branch" and "Get the current commit of
  the sync branch": the value is the pair \<^verbatim>\<open>(branchRef, currentCommit)\<close>.\<close>

definition sync_branch ::
  "'w api \<Rightarrow> cloner \<Rightarrow> string \<Rightarrow> string \<Rightarrow> string \<Rightarrow> string \<Rightarrow> ('w, git_ref \<times> git_commit) io" where
  "sync_branch api this tOwner tRepo defaultBranch syncBranchName =
     bnd (git_getRef api (octokit this) tOwner tRepo (''heads/'' @ defaultBranch))
       (\<lambda>defaultBranchRef.
     bnd (try_catch
            (bnd (git_getRef api (octokit this) tOwner tRepo (''heads/'' @ syncBranchName))
               (\<lambda>_. ret True))
            (\<lambda>error. if err_status error \<noteq> Some 404 then throw error else ret False))
       (\<lambda>branchExists.
     bnd (if \<not> branchExists \<and> syncBranchName \<noteq> defaultBranch then
            bnd (git_createRef api (octokit this) tOwner tRepo
                   (''refs/heads/'' @ syncBranchName) (object_sha defaultBranchRef))
              (\<lambda>_. sleep api 1000)
          else ret ()) (\<lambda>_.
     try_catch
       (bnd (git_getRef api (octokit this) tOwner tRepo (''heads/'' @ syncBranchName)) (\<lambda>ref.
        bnd (git_getCommit api (octokit this) tOwner tRepo (object_sha ref)) (\<lambda>commit.
        ret (ref, commit))))
       (\<lambda>error.
          bnd (console Error (''Error getting branch reference for '' @ syncBranchName
                                @ '': '' @ err_message error)) (\<lambda>_.
          throw (js_Error (''Failed to get current state of branch '' @ syncBranchName)))))))"

text \<open>Step 9, "Create tree with all files from template": the tree is built on the
  current tree of the branch, and once more without a base tree when that fails.\<close>

definition base_tree_warning :: "api_error \<Rightarrow> string" where
  "base_tree_warning error =
     ''Failed to create tree with base tree, trying without base tree: '' @ err_message error"

definition sync_tree ::
  "'w api \<Rightarrow> cloner \<Rightarrow> string \<Rightarrow> string \<Rightarrow> repo_file list \<Rightarrow> git_commit \<Rightarrow> ('w, string) io" where
  "sync_tree api this tOwner tRepo filesToSync currentCommit =
     try_catch
       (createTree api this tOwner tRepo filesToSync (Some (commit_tree_sha currentCommit)))
       (\<lambda>error.
          bnd (console Warn (base_tree_warning error)) (\<lambda>_.
          createTree api this tOwner tRepo filesToSync None))"

text \<open>Step 12, "Create pull request if requested and not updating default branch": the
  value is \<^verbatim>\<open>pullRequestUrl\<close>.\<close>

definition pull_request_error :: "'w api \<Rightarrow> api_error \<Rightarrow> string" where
  "pull_request_error api error = ''Error creating pull request: '' @ rt_inspect api error"

definition sync_pull_request ::
  "'w api \<Rightarrow> cloner \<Rightarrow> sync_options \<Rightarrow> string \<Rightarrow> string \<Rightarrow> listed_commit \<Rightarrow> nat
     \<Rightarrow> ('w, string option) io" where
  "sync_pull_request api this options defaultBranch syncBranchName latestTemplateCommit n =
     (if (case createPullRequest options of None \<Rightarrow> True | Some b \<Rightarrow> b)
         \<and> syncBranchName \<noteq> defaultBranch then
        try_catch
          (bnd (pulls_create api (octokit this) (targetOwner options) (targetRepo options)
                  (pull_request_title (sourceOwner options) (sourceRepo options))
                  (pull_request_body (sourceOwner options) (sourceRepo options)
                     latestTemplateCommit n)
                  syncBranchName defaultBranch) (\<lambda>pr.
           ret (Some (pr_html_url pr))))
          (\<lambda>error.
             bnd (console Error (pull_request_error api error)) (\<lambda>_. ret None))
      else ret None)"

text \<open>The message of the sync commit: \<^verbatim>\<open>commitMessage || `Sync with template ...`\<close>.\<close>

definition sync_commit_message :: "sync_options \<Rightarrow> listed_commit \<Rightarrow> string" where
  "sync_commit_message options latestTemplateCommit =
     (if truthy (commitMessage options) then or_default (commitMessage options) []
      else default_commit_message (sourceOwner options) (sourceRepo options)
             (listed_sha latestTemplateCommit))"

definition nothing_to_sync :: sync_result where
  "nothing_to_sync =
     \<lparr>success = True, filesCount = 0, syncBranch = None, pullRequestUrl = None,
      message = ''Template repository is empty, nothing to sync''\<rparr>"

definition sync_error :: "api_error \<Rightarrow> api_error" where
  "sync_error error = js_Error (''Failed to sync with template: '' @ err_message error)"

text \<open>Steps 8 to 12 and the returned object: the files are filtered, the tree and the
  commit are written, the branch is moved and the pull request is opened.\<close>

definition sync_write ::
  "'w api \<Rightarrow> cloner \<Rightarrow> sync_options \<Rightarrow> string \<Rightarrow> string \<Rightarrow> listed_commit \<Rightarrow> repo_file list
     \<Rightarrow> git_ref \<Rightarrow> git_commit \<Rightarrow> ('w, sync_result) io" where
  "sync_write api this options defaultBranch syncBranchName latestTemplateCommit files
     branchRef currentCommit =
     (let sOwner = sourceOwner options; sRepo = sourceRepo options;
          tOwner = targetOwner options; tRepo = targetRepo options;
          filesToSync = filesToSync_of files
      in
      bnd (sync_tree api this tOwner tRepo filesToSync currentCommit) (\<lambda>tree.
      bnd (createCommit api this tOwner tRepo tree
             (sync_commit_message options latestTemplateCommit)
             [object_sha branchRef]) (\<lambda>commit.
      bnd (git_updateRef api (octokit this) tOwner tRepo (''heads/'' @ syncBranchName)
             (commit_sha commit) None) (\<lambda>_.
      bnd (sync_pull_request api this options defaultBranch syncBranchName
             latestTemplateCommit (length filesToSync)) (\<lambda>pullRequestUrl'.
      ret \<lparr>success = True, filesCount = length filesToSync,
           syncBranch = Some syncBranchName, pullRequestUrl = pullRequestUrl',
           message = ''Successfully synced with template '' @ sOwner @ ''/'' @ sRepo\<rparr>)))))"

text \<open>The source client of a sync: \<^verbatim>\<open>sourceToken ? new Octokit(...) : this.sourceOctokit\<close>.\<close>

definition src_client :: "cloner \<Rightarrow> sync_options \<Rightarrow> client" where
  "src_client this options =
     (if truthy (sourceToken options) then Octokit (sourceToken options) else sourceOctokit this)"

definition sync_failure_line :: "'w api \<Rightarrow> api_error \<Rightarrow> string" where
  "sync_failure_line api error = ''Error syncing with template: '' @ rt_inspect api error"

definition syncWithTemplate :: "'w api \<Rightarrow> cloner \<Rightarrow> sync_options \<Rightarrow> ('w, sync_result) io" where
  "syncWithTemplate api this options =
     (let sOwner = sourceOwner options; sRepo = sourceRepo options;
          tOwner = targetOwner options; tRepo = targetRepo options
      in
      try_catch
       (bnd (repos_get api (octokit this) tOwner tRepo) (\<lambda>targetRepoData.
        let defaultBranch = or_default (default_branch targetRepoData) ''main'' in
        bnd (repos_get api (src_client this options) sOwner sRepo) (\<lambda>sourceRepoData.
        bnd (repos_listCommits api (src_client this options) sOwner sRepo
               (Some (or_default (default_branch sourceRepoData) ''main'')) 1) (\<lambda>templateCommits.
        case templateCommits of
          [] \<Rightarrow> throw (js_Error ''No commits found in template repository'')
        | latestTemplateCommit # _ \<Rightarrow>
        bnd (sync_branch_name api options defaultBranch) (\<lambda>syncBranchName.
        bnd (getAllFiles api this sOwner sRepo (or_default (default_branch sourceRepoData) ''main''))
          (\<lambda>files.
        if length files = 0 then ret nothing_to_sync
        else
        bnd (sync_branch api this tOwner tRepo defaultBranch syncBranchName)
          (\<lambda>(branchRef, currentCommit).
        sync_write api this options defaultBranch syncBranchName latestTemplateCommit files
          branchRef currentCommit)))))))
       (\<lambda>error.
          bnd (console Error (sync_failure_line api error)) (\<lambda>_. throw (sync_error error))))"

subsection \<open>Clone Orchestrator: \<^verbatim>\<open>cloneAsTemplate\<close>\<close>

record RepoCloneOptions =
  co_sourceOwner :: string
  co_sourceRepo :: string
  targetName :: string
  targetDescription :: "string option"
  isPrivate :: "bool option"
  includeBranches :: "bool option"
  co_sourceToken :: "string option"
  targetUsername :: "string option"

record clone_result =
  clone_success :: bool
  repository :: repo_data
  clone_filesCount :: nat
  clone_message :: string

text \<open>"Validate authentication and get target owner", the opening of both strategies.\<close>

definition clone_target_owner :: "'w api \<Rightarrow> cloner \<Rightarrow> RepoCloneOptions \<Rightarrow> ('w, string) io" where
  "clone_target_owner api this options =
     try_catch
       (bnd (users_getAuthenticated api (octokit this)) (\<lambda>authUser.
          ret (or_default (targetUsername options) (login authUser))))
       (\<lambda>error. throw (js_Error
          ''GitHub authentication failed. Please ensure you have a valid GitHub token.''))"

text \<open>\<^verbatim>\<open>targetDescription || sourceRepoData.description || `Cloned from ...`\<close>.\<close>

definition clone_description :: "RepoCloneOptions \<Rightarrow> repo_data \<Rightarrow> string" where
  "clone_description options sourceRepoData =
     or_default (targetDescription options)
       (or_default (description sourceRepoData)
          (''Cloned from '' @ co_sourceOwner options @ ''/'' @ co_sourceRepo options))"

text \<open>"Copy branch protection if possible", the closing block of both strategies; any
  failure is swallowed.\<close>

definition simplify_reviews :: "pr_reviews option \<Rightarrow> simplified_reviews option" where
  "simplify_reviews rs =
     (case rs of
        None \<Rightarrow> None
      | Some rv \<Rightarrow>
          Some \<lparr>s_dismiss_stale_reviews =
                  (case dismiss_stale_reviews rv of None \<Rightarrow> False | Some b \<Rightarrow> b),
                s_require_code_owner_reviews =
                  (case require_code_owner_reviews rv of None \<Rightarrow> False | Some b \<Rightarrow> b),
                s_required_approving_review_count =
                  (case required_approving_review_count rv of
                     None \<Rightarrow> 1 | Some n \<Rightarrow> if n = 0 then 1 else n)\<rparr>)"

definition copy_branch_protection ::
  "'w api \<Rightarrow> cloner \<Rightarrow> string \<Rightarrow> string \<Rightarrow> string \<Rightarrow> string \<Rightarrow> string \<Rightarrow> ('w, unit) io" where
  "copy_branch_protection api this sOwner sRepo tOwner tName defaultBranch =
     try_catch
       (bnd (repos_getBranchProtection api (sourceOctokit this) sOwner sRepo defaultBranch)
          (\<lambda>protectionRules.
        repos_updateBranchProtection api (octokit this) tOwner tName defaultBranch
          (simplify_reviews (required_pull_request_reviews protectionRules))))
       (\<lambda>error. ret ())"

text \<open>"Remove the auto-generated README.md first if it exists and we have files to
  replace it".\<close>

definition remove_generated_readme ::
  "'w api \<Rightarrow> cloner \<Rightarrow> string \<Rightarrow> string \<Rightarrow> repo_file list \<Rightarrow> ('w, unit) io" where
  "remove_generated_readme api this tOwner tName files =
     (if list_ex (\<lambda>f. file_path f = ''README.md'') files then
        try_catch
          (bnd (repos_getContent api (octokit this) tOwner tName ''README.md'') (\<lambda>existingReadme.
             case content_sha existingReadme of
               Some sha \<Rightarrow>
                 repos_deleteFile api (octokit this) tOwner tName ''README.md''
                   ''Remove auto-generated README'' sha
             | None \<Rightarrow> ret ()))
          (\<lambda>error. ret ())
      else ret ())"

definition put_file :: "'w api \<Rightarrow> cloner \<Rightarrow> string \<Rightarrow> string \<Rightarrow> repo_file \<Rightarrow> ('w, unit) io" where
  "put_file api this tOwner tName file =
     repos_createOrUpdateFileContents api (octokit this) tOwner tName (file_path file)
       (''Add '' @ file_path file) (rt_base64 api (file_content file))
       (''GitHub Repo Cloner'', ''noreply@github.com'')"

text \<open>The body of \<^verbatim>\<open>for (const file of files)\<close>: the value is the increment of
  \<^verbatim>\<open>createdFiles\<close>.\<close>

definition create_file :: "'w api \<Rightarrow> cloner \<Rightarrow> string \<Rightarrow> string \<Rightarrow> repo_file \<Rightarrow> ('w, nat) io" where
  "create_file api this tOwner tName file =
     try_catch
       (bnd (put_file api this tOwner tName file) (\<lambda>_.
        bnd (sleep api 500) (\<lambda>_. ret 1)))
       (\<lambda>error.
          if str_includes (err_message error) ''sha'' \<or> err_status error = Some 409 then
            bnd (console Warn (''SHA conflict detected for '' @ file_path file @ '', retrying...''))
              (\<lambda>_.
            bnd (sleep api 1000) (\<lambda>_.
            try_catch
              (bnd (put_file api this tOwner tName file) (\<lambda>_. ret 1))
              (\<lambda>retryError.
                 bnd (console Error (''Failed to create '' @ file_path file @ '' after retry: ''
                                       @ err_message retryError)) (\<lambda>_. ret 0))))
          else
            bnd (console Error (''Failed to create '' @ file_path file @ '': '' @ err_message error))
              (\<lambda>_. ret 0))"

fun create_files ::
  "'w api \<Rightarrow> cloner \<Rightarrow> string \<Rightarrow> string \<Rightarrow> repo_file list \<Rightarrow> nat \<Rightarrow> ('w, nat) io" where
  "create_files api this tOwner tName [] createdFiles = ret createdFiles"
| "create_files api this tOwner tName (file # files) createdFiles =
     bnd (create_file api this tOwner tName file) (\<lambda>n.
       create_files api this tOwner tName files (createdFiles + n))"

definition cloneUsingContentsAPI ::
  "'w api \<Rightarrow> cloner \<Rightarrow> RepoCloneOptions \<Rightarrow> ('w, clone_result) io" where
  "cloneUsingContentsAPI api this options =
     (let sOwner = co_sourceOwner options; sRepo = co_sourceRepo options;
          tName = targetName options;
          private = (case isPrivate options of None \<Rightarrow> False | Some b \<Rightarrow> b)
      in
      bnd (clone_target_owner api this options) (\<lambda>tOwner.
      bnd (repos_get api (sourceOctokit this) sOwner sRepo) (\<lambda>sourceRepoData.
      bnd (repos_createForAuthenticatedUser api (octokit this) tName
             (clone_description options sourceRepoData) private True) (\<lambda>newRepo.
      bnd (sleep api 3000) (\<lambda>_.
      let defaultBranch = or_default (default_branch sourceRepoData) ''main'' in
      bnd (getAllFiles api this sOwner sRepo defaultBranch) (\<lambda>files.
      if length files = 0 then
        bnd (console Warn (''Source repository '' @ sOwner @ ''/'' @ sRepo
                             @ '' appears to be empty'')) (\<lambda>_.
        ret \<lparr>clone_success = True, repository = newRepo, clone_filesCount = 0,
             clone_message = ''Successfully created repository '' @ tName
                               @ '' (source was empty)''\<rparr>)
      else
      bnd (remove_generated_readme api this tOwner tName files) (\<lambda>_.
      bnd (create_files api this tOwner tName files 0) (\<lambda>createdFiles.
      bnd (copy_branch_protection api this sOwner sRepo tOwner tName defaultBranch) (\<lambda>_.
      ret \<lparr>clone_success = True, repository = newRepo, clone_filesCount = createdFiles,
           clone_message = ''Successfully cloned '' @ sOwner @ ''/'' @ sRepo @ '' to '' @ tName
                             @ '' using Contents API''\<rparr>)))))))))"

text \<open>"Verify repository is accessible with retries": the value is \<^verbatim>\<open>repoReady\<close>.\<close>

function repo_ready :: "'w api \<Rightarrow> cloner \<Rightarrow> string \<Rightarrow> string \<Rightarrow> nat \<Rightarrow> ('w, bool) io" where
  "repo_ready api this tOwner tName i =
     (if i < 5 then
        try_catch
          (bnd (repos_get api (octokit this) tOwner tName) (\<lambda>_. ret True))
          (\<lambda>error. bnd (sleep api 2000) (\<lambda>_. repo_ready api this tOwner tName (i + 1)))
      else ret False)"
  by pat_completeness auto
termination
  by (relation "measure (\<lambda>(api, this, tOwner, tName, i). 5 - i)") auto

declare repo_ready.simps [simp del]

text \<open>"Get the current HEAD commit to use as parent": the value is the pair
  \<^verbatim>\<open>(parentSha, baseTreeSha)\<close>, each possibly undefined.\<close>

definition clone_parent ::
  "'w api \<Rightarrow> cloner \<Rightarrow> string \<Rightarrow> string \<Rightarrow> string \<Rightarrow> ('w, string option \<times> string option) io" where
  "clone_parent api this tOwner tName defaultBranch =
     try_catch
       (bnd (git_getRef api (octokit this) tOwner tName (''heads/'' @ defaultBranch)) (\<lambda>ref.
          try_catch
            (bnd (git_getCommit api (octokit this) tOwner tName (object_sha ref)) (\<lambda>parentCommit.
               ret (Some (object_sha ref), Some (commit_tree_sha parentCommit))))
            (\<lambda>error. ret (Some (object_sha ref), None))))
       (\<lambda>error. ret (None, None))"

definition copy_branch ::
  "'w api \<Rightarrow> cloner \<Rightarrow> string \<Rightarrow> string \<Rightarrow> string \<Rightarrow> string \<Rightarrow> string \<Rightarrow> git_commit
     \<Rightarrow> branch_data \<Rightarrow> ('w, unit) io" where
  "copy_branch api this sOwner sRepo tOwner tName defaultBranch commit branch =
     (if branch_name branch \<noteq> defaultBranch then
        try_catch
          (bnd (getAllFiles api this sOwner sRepo (branch_name branch)) (\<lambda>branchFiles.
           bnd (createTree api this tOwner tName branchFiles None) (\<lambda>branchTree.
           bnd (createCommit api this tOwner tName branchTree
                  (''Branch '' @ branch_name branch @ '' - Cloned from '' @ sOwner @ ''/'' @ sRepo)
                  [commit_sha commit]) (\<lambda>branchCommit.
           git_createRef api (octokit this) tOwner tName
             (''refs/heads/'' @ branch_name branch) (commit_sha branchCommit)))))
          (\<lambda>error.
             console Error (''Error creating branch '' @ branch_name branch @ '': ''
                              @ rt_inspect api error))
      else ret ())"

fun copy_branches ::
  "'w api \<Rightarrow> cloner \<Rightarrow> string \<Rightarrow> string \<Rightarrow> string \<Rightarrow> string \<Rightarrow> string \<Rightarrow> git_commit
     \<Rightarrow> branch_data list \<Rightarrow> ('w, unit) io" where
  "copy_branches api this sOwner sRepo tOwner tName defaultBranch commit [] = ret ()"
| "copy_branches api this sOwner sRepo tOwner tName defaultBranch commit (branch # branches) =
     bnd (copy_branch api this sOwner sRepo tOwner tName defaultBranch commit branch) (\<lambda>_.
       copy_branches api this sOwner sRepo tOwner tName defaultBranch commit branches)"

definition cloneUsingGitAPI :: "'w api \<Rightarrow> cloner \<Rightarrow> RepoCloneOptions \<Rightarrow> ('w, clone_result) io" where
  "cloneUsingGitAPI api this options =
     (let sOwner = co_sourceOwner options; sRepo = co_sourceRepo options;
          tName = targetName options;
          private = (case isPrivate options of None \<Rightarrow> False | Some b \<Rightarrow> b);
          withBranches = (case includeBranches options of None \<Rightarrow> True | Some b \<Rightarrow> b)
      in
      bnd (clone_target_owner api this options) (\<lambda>tOwner.
      bnd (repos_get api (sourceOctokit this) sOwner sRepo) (\<lambda>sourceRepoData.
      bnd (repos_createForAuthenticatedUser api (octokit this) tName
             (clone_description options sourceRepoData) private True) (\<lambda>newRepo.
      bnd (sleep api 5000) (\<lambda>_.
      bnd (repo_ready api this tOwner tName 0) (\<lambda>repoReady.
      if \<not> repoReady then throw (js_Error ''Repository creation timed out. Please try again.'')
      else
      let defaultBranch = or_default (default_branch sourceRepoData) ''main'' in
      bnd (getAllFiles api this sOwner sRepo defaultBranch) (\<lambda>files.
      if length files = 0 then
        bnd (console Warn (''Source repository '' @ sOwner @ ''/'' @ sRepo
                             @ '' appears to be empty'')) (\<lambda>_.
        ret \<lparr>clone_success = True, repository = newRepo, clone_filesCount = 0,
             clone_message = ''Successfully created repository '' @ tName
                               @ '' (source was empty)''\<rparr>)
      else
      bnd (clone_parent api this tOwner tName defaultBranch) (\<lambda>(parentSha, baseTreeSha).
      bnd (createTree api this tOwner tName files baseTreeSha) (\<lambda>tree.
      bnd (createCommit api this tOwner tName tree
             (''Initial commit - Cloned from '' @ sOwner @ ''/'' @ sRepo)
             (if truthy parentSha then [or_default parentSha []] else [])) (\<lambda>commit.
      bnd (git_updateRef api (octokit this) tOwner tName (''heads/'' @ defaultBranch)
             (commit_sha commit) (Some True)) (\<lambda>_.
      bnd (if withBranches then
             bnd (getBranches api this sOwner sRepo) (\<lambda>branches.
               copy_branches api this sOwner sRepo tOwner tName defaultBranch commit branches)
           else ret ()) (\<lambda>_.
      bnd (copy_branch_protection api this sOwner sRepo tOwner tName defaultBranch) (\<lambda>_.
      ret \<lparr>clone_success = True, repository = newRepo, clone_filesCount = length files,
           clone_message = ''Successfully cloned '' @ sOwner @ ''/'' @ sRepo @ '' to '' @ tName
                             @ '' using Git API''\<rparr>)))))))))))))"

definition contents_failed_warning :: "api_error \<Rightarrow> string" where
  "contents_failed_warning error =
     ''Contents API approach failed, trying Git API fallback: '' @ err_message error"

definition both_failed_error :: "api_error \<Rightarrow> api_error" where
  "both_failed_error fallbackError =
     js_Error (''Failed to clone repository using both methods. Last error: ''
                 @ err_message fallbackError)"

definition cloneAsTemplate :: "'w api \<Rightarrow> cloner \<Rightarrow> RepoCloneOptions \<Rightarrow> ('w, clone_result) io" where
  "cloneAsTemplate api this options =
     try_catch (cloneUsingContentsAPI api this options)
       (\<lambda>error.
          bnd (console Warn (contents_failed_warning error)) (\<lambda>_.
          try_catch (cloneUsingGitAPI api this options)
            (\<lambda>fallbackError.
               bnd (console Error ''Both approaches failed'') (\<lambda>_.
               throw (both_failed_error fallbackError)))))"


subsection \<open>Drift check: \<^verbatim>\<open>GET\<close> of the template-updates route\<close>

text \<open>
  The handler calls each collaborator at most once for given arguments and changes
  nothing, so its collaborators are functions of their arguments: the session, the two
  database lookups, \<^verbatim>\<open>safeDecrypt\<close>, the two Octokit reads, and the time value of
  \<^verbatim>\<open>new Date(s)\<close> (\<open>None\<close> for an invalid date). The value of the model is the JSON
  response; the two \<^verbatim>\<open>console.error\<close> lines of the handler are left out.
\<close>

record github_template =
  githubUrl :: string
  githubToken :: "string option"
  branch :: "string option"

record project =
  githubRepo :: "string option"
  createdAt :: int
  githubTemplate :: "github_template option"




















subsection \<open>A scripted hosting API for concrete runs\<close>

text \<open>
  The world of the scripted API holds the refs created so far and the blob contents
  whose creation is rejected; a scenario fixes the template's commits and tree and which
  requests are rejected.
\<close>

record script_world =
  created_refs :: "string list"
  rejected_blobs :: "string list"

record scenario =
  sc_template_commits :: "listed_commit list"
  sc_template_tree :: "tree_item list"
  sc_auth_rejected :: bool
  sc_pull_rejected :: bool
  sc_base_tree_rejected :: bool

definition not_found :: api_error where
  "not_found = ApiError (Some 404) ''Not Found''"

definition script_api :: "scenario \<Rightarrow> script_world api" where
  "script_api sc =
     \<lparr>api_users_getAuthenticated = (\<lambda>c w.
        (if sc_auth_rejected sc then Inl (ApiError (Some 401) ''Bad credentials'')
         else Inr \<lparr>login = ''octo''\<rparr>, w)),
      api_repos_get = (\<lambda>c owner repo w.
        (Inr \<lparr>default_branch = Some ''main'', description = None,
              html_url = ''https://github.com/'' @ owner @ ''/'' @ repo\<rparr>, w)),
      api_repos_createForAuthenticatedUser = (\<lambda>c name descr private auto_init w.
        (Inr \<lparr>default_branch = Some ''main'', description = Some descr,
              html_url = ''https://github.com/octo/'' @ name\<rparr>, w)),
      api_repos_getContent = (\<lambda>c owner repo path w. (Inl not_found, w)),
      api_repos_deleteFile = (\<lambda>c owner repo path msg sha w. (Inr (), w)),
      api_repos_createOrUpdateFileContents = (\<lambda>c owner repo path msg content committer w.
        (Inr (), w)),
      api_repos_getBranchProtection = (\<lambda>c owner repo branch w. (Inl not_found, w)),
      api_repos_updateBranchProtection = (\<lambda>c owner repo branch reviews w. (Inr (), w)),
      api_repos_listCommits = (\<lambda>c owner repo sha per_page w. (Inr (sc_template_commits sc), w)),
      api_repos_listBranches = (\<lambda>c owner repo per_page w. (Inr [], w)),
      api_git_getRef = (\<lambda>c owner repo ref w.
        (if ref = ''heads/main'' \<or> (''refs/'' @ ref) \<in> set (created_refs w)
         then Inr \<lparr>object_sha = ''c0''\<rparr> else Inl not_found, w)),
      api_git_getCommit = (\<lambda>c owner repo sha w.
        (Inr \<lparr>commit_sha = sha, commit_tree_sha = ''t0''\<rparr>, w)),
      api_git_getTree = (\<lambda>c owner repo tree_sha recursive w. (Inr (sc_template_tree sc), w)),
      api_git_getBlob = (\<lambda>c owner repo file_sha w.
        (Inr \<lparr>blob_encoding = ''utf-8'', blob_content = ''text''\<rparr>, w)),
      api_git_createBlob = (\<lambda>c owner repo content encoding w.
        (if content \<in> set (rejected_blobs w) then Inl (ApiError (Some 502) ''Bad Gateway'')
         else Inr ''b1'', w)),
      api_git_createTree = (\<lambda>c owner repo tree base_tree w.
        (if sc_base_tree_rejected sc \<and> base_tree \<noteq> None then Inl not_found else Inr ''t1'', w)),
      api_git_createCommit = (\<lambda>c owner repo msg tree parents w.
        (Inr \<lparr>commit_sha = ''c1'', commit_tree_sha = tree\<rparr>, w)),
      api_git_updateRef = (\<lambda>c owner repo ref sha force w. (Inr (), w)),
      api_git_createRef = (\<lambda>c owner repo ref sha w.
        (Inr (), w\<lparr>created_refs := ref # created_refs w\<rparr>)),
      api_pulls_create = (\<lambda>c owner repo title body head base w.
        (if sc_pull_rejected sc then Inl (ApiError (Some 422) ''Validation Failed'')
         else Inr \<lparr>pr_html_url = ''https://github.com/acme/app/pull/1''\<rparr>, w)),
      rt_wait = (\<lambda>ms w. w),
      rt_now_iso = (\<lambda>w. ''2026-01-02T03:04:05.678Z''),
      rt_base64 = (\<lambda>s. s),
      rt_base64_decode = (\<lambda>s. s),
      rt_inspect = (\<lambda>error. ''Error: '' @ err_message error)\<rparr>"

definition blob_item :: "string \<Rightarrow> tree_item" where
  "blob_item p = \<lparr>item_path = Some p, item_type = Some ''blob'', item_sha = Some ''s1''\<rparr>"

definition template_head :: listed_commit where
  "template_head =
     \<lparr>listed_sha = ''0123456789abcdef0123456789abcdef01234567'',
      listed_message = ''Add module'',
      listed_author = Some \<lparr>author_name = Some ''Ada'',
                            author_date = Some ''2026-01-01T00:00:00Z''\<rparr>\<rparr>"

definition sc_plain :: scenario where
  "sc_plain =
     \<lparr>sc_template_commits = [template_head],
      sc_template_tree = [blob_item ''main.tf'', blob_item ''README.md'', blob_item ''.env.local''],
      sc_auth_rejected = False, sc_pull_rejected = False, sc_base_tree_rejected = False\<rparr>"

definition w0 :: script_world where
  "w0 = \<lparr>created_refs = [], rejected_blobs = []\<rparr>"

definition the_cloner :: cloner where
  "the_cloner = GitHubRepoCloner None (Some ''token'') None"

definition default_options :: sync_options where
  "default_options =
     \<lparr>sourceOwner = ''acme'', sourceRepo = ''template'', targetOwner = ''acme'',
      targetRepo = ''app'', targetBranch = None, createPullRequest = None, sourceToken = None,
      commitMessage = None, directToMain = None\<rparr>"


subsection \<open>Observations on traces\<close>

text \<open>Requests that build a tree, and the requests and lines of the steps before the tree
  is built (reads, the creation of the sync branch, pauses, error lines).\<close>

fun is_tree_build :: "event \<Rightarrow> bool" where
  "is_tree_build (Call (GitCreateBlob c owner repo content encoding) out) = True"
| "is_tree_build (Call (GitCreateTree c owner repo tree base_tree) out) = True"
| "is_tree_build ev = False"

fun is_prelude :: "event \<Rightarrow> bool" where
  "is_prelude (Call (ReposGet c owner repo) out) = True"
| "is_prelude (Call (ReposListCommits c owner repo sha per_page) out) = True"
| "is_prelude (Call (GitGetRef c owner repo ref) out) = True"
| "is_prelude (Call (GitGetCommit c owner repo sha) out) = True"
| "is_prelude (Call (GitGetTree c owner repo sha recursive) out) = True"
| "is_prelude (Call (GitGetBlob c owner repo sha) out) = True"
| "is_prelude (Call (GitCreateRef c owner repo ref sha) out) = True"
| "is_prelude (Sleep ms) = True"
| "is_prelude (Console Error line) = True"
| "is_prelude ev = False"

text \<open>The events of enumerating a repository: reads of that repository, pauses and
  error lines.\<close>

fun is_enumeration :: "string \<Rightarrow> string \<Rightarrow> event \<Rightarrow> bool" where
  "is_enumeration o' r' (Call (GitGetRef c owner repo ref) out) = (owner = o' \<and> repo = r')"
| "is_enumeration o' r' (Call (GitGetCommit c owner repo sha) out) = (owner = o' \<and> repo = r')"
| "is_enumeration o' r' (Call (GitGetTree c owner repo sha recursive) out) = (owner = o' \<and> repo = r')"
| "is_enumeration o' r' (Call (GitGetBlob c owner repo sha) out) = (owner = o' \<and> repo = r')"
| "is_enumeration o' r' (Sleep ms) = True"
| "is_enumeration o' r' (Console Error line) = True"
| "is_enumeration o' r' ev = False"

text \<open>The events of building a tree: blob and tree creation, pauses and error lines.\<close>

fun is_build :: "event \<Rightarrow> bool" where
  "is_build (Call (GitCreateBlob c owner repo content encoding) out) = True"
| "is_build (Call (GitCreateTree c owner repo tree base_tree) out) = True"
| "is_build (Sleep ms) = True"
| "is_build (Console Error line) = True"
| "is_build ev = False"

text \<open>Requests that change the target repository.\<close>

fun is_write :: "event \<Rightarrow> bool" where
  "is_write (Call (ReposCreateForAuthenticatedUser c name descr private auto_init) out) = True"
| "is_write (Call (ReposDeleteFile c owner repo path msg sha) out) = True"
| "is_write (Call (ReposCreateOrUpdateFileContents c owner repo path msg content committer) out) = True"
| "is_write (Call (ReposUpdateBranchProtection c owner repo protected reviews) out) = True"
| "is_write (Call (GitCreateBlob c owner repo content encoding) out) = True"
| "is_write (Call (GitCreateTree c owner repo tree base_tree) out) = True"
| "is_write (Call (GitCreateCommit c owner repo msg tree parents) out) = True"
| "is_write (Call (GitUpdateRef c owner repo ref sha force) out) = True"
| "is_write (Call (GitCreateRef c owner repo ref sha) out) = True"
| "is_write (Call (PullsCreate c owner repo title body head base) out) = True"
| "is_write ev = False"

fun is_pull_request :: "event \<Rightarrow> bool" where
  "is_pull_request (Call (PullsCreate c owner repo title body head base) out) = True"
| "is_pull_request ev = False"

fun is_create_ref :: "event \<Rightarrow> bool" where
  "is_create_ref (Call (GitCreateRef c owner repo ref sha) out) = True"
| "is_create_ref ev = False"

text \<open>The tree entries and the commit messages sent to the target.\<close>

fun tree_paths :: "event \<Rightarrow> string list" where
  "tree_paths (Call (GitCreateTree c owner repo tree base_tree) out) = map entry_path tree"
| "tree_paths ev = []"

fun commit_messages :: "event \<Rightarrow> string list" where
  "commit_messages (Call (GitCreateCommit c owner repo msg tree parents) out) = [msg]"
| "commit_messages ev = []"

text \<open>The requests a sync opens with, and the commit and ref requests it ends with.\<close>

definition sync_opening ::
  "cloner \<Rightarrow> sync_options \<Rightarrow> repo_data \<Rightarrow> repo_data \<Rightarrow> listed_commit list \<Rightarrow> event list" where
  "sync_opening this options targetRepoData sourceRepoData templateCommits =
     [Call (ReposGet (octokit this) (targetOwner options) (targetRepo options))
        (Inr (RRepo targetRepoData)),
      Call (ReposGet (src_client this options) (sourceOwner options) (sourceRepo options))
        (Inr (RRepo sourceRepoData)),
      Call (ReposListCommits (src_client this options) (sourceOwner options) (sourceRepo options)
              (Some (or_default (default_branch sourceRepoData) ''main'')) 1)
        (Inr (RCommits templateCommits))]"

definition commit_request ::
  "cloner \<Rightarrow> sync_options \<Rightarrow> listed_commit \<Rightarrow> string \<Rightarrow> git_ref \<Rightarrow> request" where
  "commit_request this options latestTemplateCommit tree branchRef =
     GitCreateCommit (octokit this) (targetOwner options) (targetRepo options)
       (sync_commit_message options latestTemplateCommit) tree [object_sha branchRef]"

definition update_ref_request :: "cloner \<Rightarrow> sync_options \<Rightarrow> string \<Rightarrow> git_commit \<Rightarrow> request" where
  "update_ref_request this options syncBranchName commit =
     GitUpdateRef (octokit this) (targetOwner options) (targetRepo options)
       (''heads/'' @ syncBranchName) (commit_sha commit) None"

definition pull_request_request ::
  "cloner \<Rightarrow> sync_options \<Rightarrow> listed_commit \<Rightarrow> nat \<Rightarrow> string \<Rightarrow> string \<Rightarrow> request" where
  "pull_request_request this options latestTemplateCommit n syncBranchName defaultBranch =
     PullsCreate (octokit this) (targetOwner options) (targetRepo options)
       (pull_request_title (sourceOwner options) (sourceRepo options))
       (pull_request_body (sourceOwner options) (sourceRepo options) latestTemplateCommit n)
       syncBranchName defaultBranch"

text \<open>The events of creating blobs when every blob is created: attempts and pauses.\<close>

fun is_blob_attempt :: "event \<Rightarrow> bool" where
  "is_blob_attempt (Call (GitCreateBlob c owner repo content encoding) out) = True"
| "is_blob_attempt (Sleep ms) = True"
| "is_blob_attempt ev = False"

fun is_error_line :: "event \<Rightarrow> bool" where
  "is_error_line (Console Error line) = True"
| "is_error_line ev = False"

fun is_warning :: "event \<Rightarrow> bool" where
  "is_warning (Console Warn line) = True"
| "is_warning ev = False"

text \<open>The events of step 9: tree building and the warning before the second build.\<close>

fun is_tree_phase :: "event \<Rightarrow> bool" where
  "is_tree_phase (Console Warn line) = True"
| "is_tree_phase ev = is_build ev"

fun is_create_tree :: "event \<Rightarrow> bool" where
  "is_create_tree (Call (GitCreateTree c owner repo tree base_tree) out) = True"
| "is_create_tree ev = False"

fun is_create_commit :: "event \<Rightarrow> bool" where
  "is_create_commit (Call (GitCreateCommit c owner repo msg tree parents) out) = True"
| "is_create_commit ev = False"

text \<open>The denylist in the words of the specification: a path beginning with
  \<^verbatim>\<open>.git/\<close>, \<^verbatim>\<open>node_modules/\<close> or \<^verbatim>\<open>.env\<close>, or equal to \<^verbatim>\<open>README.md\<close> or \<^verbatim>\<open>LICENSE\<close>
  up to the case of its letters.\<close>

definition lower_char :: "char \<Rightarrow> char" where
  "lower_char c =
     (if of_char c \<ge> (65::nat) \<and> of_char c \<le> (90::nat) then char_of (of_char c + (32::nat)) else c)"

definition denylisted :: "string \<Rightarrow> bool" where
  "denylisted p =
     (prefix ''.git/'' p \<or> prefix ''node_modules/'' p \<or> prefix ''.env'' p
      \<or> map lower_char p = ''readme.md'' \<or> map lower_char p = ''license'')"





subsection \<open>Events and values of a computation\<close>

text \<open>Three properties of a computation, used to state facts about its parts: every
  event of every run satisfies \<open>P\<close>; every returned value satisfies \<open>Q\<close>; every event of
  every run that returns a value satisfies \<open>P\<close>.\<close>

definition emits :: "(event \<Rightarrow> bool) \<Rightarrow> ('w, 'a) io \<Rightarrow> bool" where
  "emits P m = (\<forall>w r w' evs. m w = (r, w', evs) \<longrightarrow> list_all P evs)"

definition returns :: "('a \<Rightarrow> bool) \<Rightarrow> ('w, 'a) io \<Rightarrow> bool" where
  "returns Q m = (\<forall>w x w' evs. m w = (Inr x, w', evs) \<longrightarrow> Q x)"

definition emits_ok :: "(event \<Rightarrow> bool) \<Rightarrow> ('w, 'a) io \<Rightarrow> bool" where
  "emits_ok P m = (\<forall>w x w' evs. m w = (Inr x, w', evs) \<longrightarrow> list_all P evs)"

subsection \<open>Concrete runs\<close>

text \<open>A review-mode sync with default options: the template holds \<^verbatim>\<open>main.tf\<close>,
  \<^verbatim>\<open>README.md\<close> and \<^verbatim>\<open>.env.local\<close>.\<close>

definition review_run :: "(api_error + sync_result) \<times> script_world \<times> event list" where
  "review_run = syncWithTemplate (script_api sc_plain) the_cloner default_options w0"

definition review_tree_request :: event where
  "review_tree_request =
     Call (GitCreateTree (octokit the_cloner) ''acme'' ''app''
             [\<lparr>entry_path = ''main.tf'', entry_mode = ''100644'', entry_type = ''blob'',
               entry_sha = ''b1''\<rparr>] (Some ''t0''))
       (Inr (RSha ''t1''))"


definition custom_run :: "(api_error + sync_result) \<times> script_world \<times> event list" where
  "custom_run =
     syncWithTemplate (script_api sc_plain) the_cloner
       (default_options\<lparr>commitMessage := Some ''chore: refresh from template''\<rparr>) w0"

definition rejected_pull_run :: "(api_error + sync_result) \<times> script_world \<times> event list" where
  "rejected_pull_run =
     syncWithTemplate (script_api (sc_plain\<lparr>sc_pull_rejected := True\<rparr>)) the_cloner
       default_options w0"

definition rejected_base_run :: "(api_error + sync_result) \<times> script_world \<times> event list" where
  "rejected_base_run =
     syncWithTemplate (script_api (sc_plain\<lparr>sc_base_tree_rejected := True\<rparr>)) the_cloner
       default_options w0"



text \<open>A template without commits and without files, and a template with a commit whose
  tree holds no blob.\<close>

definition no_commits_run :: "(api_error + sync_result) \<times> script_world \<times> event list" where
  "no_commits_run =
     syncWithTemplate
       (script_api (sc_plain\<lparr>sc_template_commits := [], sc_template_tree := []\<rparr>)) the_cloner
       default_options w0"

definition no_files_run :: "(api_error + sync_result) \<times> script_world \<times> event list" where
  "no_files_run =
     syncWithTemplate (script_api (sc_plain\<lparr>sc_template_tree := []\<rparr>)) the_cloner
       default_options w0"




text \<open>Two clones of the template into a new repository \<^verbatim>\<open>app\<close>: one with every request
  answered, one with the token rejected.\<close>

definition clone_options :: RepoCloneOptions where
  "clone_options =
     \<lparr>co_sourceOwner = ''acme'', co_sourceRepo = ''template'', targetName = ''app'',
      targetDescription = None, isPrivate = None, includeBranches = None,
      co_sourceToken = None, targetUsername = None\<rparr>"

definition plain_clone_run :: "(api_error + clone_result) \<times> script_world \<times> event list" where
  "plain_clone_run = cloneAsTemplate (script_api sc_plain) the_cloner clone_options w0"

definition rejected_clone_run :: "(api_error + clone_result) \<times> script_world \<times> event list" where
  "rejected_clone_run =
     cloneAsTemplate (script_api (sc_plain\<lparr>sc_auth_rejected := True\<rparr>)) the_cloner
       clone_options w0"

text \<open>Tree building over two files while the blob of the first one is rejected.\<close>

definition two_files :: "repo_file list" where
  "two_files = [\<lparr>file_path = ''a.txt'', file_content = ''A''\<rparr>,
                \<lparr>file_path = ''b.txt'', file_content = ''B''\<rparr>]"

definition exhausted_blob :: "(api_error + string) \<times> script_world \<times> event list" where
  "exhausted_blob =
     createBlobWithRetry (script_api sc_plain) the_cloner ''acme'' ''app'' (hd two_files) 3 0
       \<lparr>created_refs = [], rejected_blobs = [''A'']\<rparr>"

definition exhausted_build :: "(api_error + string) \<times> script_world \<times> event list" where
  "exhausted_build =
     createTree (script_api sc_plain) the_cloner ''acme'' ''app'' two_files None
       \<lparr>created_refs = [], rejected_blobs = [''A'']\<rparr>"


lemma ret_run: "ret x w = (r, w', evs) \<longleftrightarrow> r = Inr x \<and> w' = w \<and> evs = []"
  by (auto simp: ret_def)

lemma throw_run: "throw e w = (r, w', evs) \<longleftrightarrow> r = Inl e \<and> w' = w \<and> evs = []"
  by (auto simp: throw_def)

lemma sleep_run:
  "sleep api ms w = (r, w', evs) \<longleftrightarrow> r = Inr () \<and> w' = rt_wait api ms w \<and> evs = [Sleep ms]"
  by (auto simp: sleep_def)

lemma console_run:
  "console lvl s w = (r, w', evs) \<longleftrightarrow> r = Inr () \<and> w' = w \<and> evs = [Console lvl s]"
  by (auto simp: console_def)

lemma now_iso_run:
  "now_iso api w = (r, w', evs) \<longleftrightarrow> r = Inr (rt_now_iso api w) \<and> w' = w \<and> evs = []"
  by (auto simp: now_iso_def)

lemma call_run:
  "call req wrap g w = (r, w', evs) \<longleftrightarrow> g w = (r, w') \<and> evs = [Call req (map_sum id wrap r)]"
  by (auto simp: call_def split: prod.splits)

lemma bnd_run:
  "bnd m f w = (r, w'', evs) \<longleftrightarrow>
     (\<exists>e. m w = (Inl e, w'', evs) \<and> r = Inl e)
     \<or> (\<exists>x w' e1 e2. m w = (Inr x, w', e1) \<and> f x w' = (r, w'', e2) \<and> evs = e1 @ e2)"
  by (auto simp: bnd_def split: prod.splits sum.splits)

lemma try_catch_run:
  "try_catch m h w = (r, w'', evs) \<longleftrightarrow>
     (\<exists>x. m w = (Inr x, w'', evs) \<and> r = Inr x)
     \<or> (\<exists>e w' e1 e2. m w = (Inl e, w', e1) \<and> h e w' = (r, w'', e2) \<and> evs = e1 @ e2)"
  by (auto simp: try_catch_def split: prod.splits sum.splits)

lemmas run_simps =
  ret_run throw_run sleep_run console_run now_iso_run call_run bnd_run try_catch_run

lemma bndE [consumes 1, case_names fail ok]:
  assumes "bnd m f w = (r, w'', evs)"
  obtains (fail) e where "m w = (Inl e, w'', evs)" "r = Inl e"
  | (ok) x w' e1 e2 where "m w = (Inr x, w', e1)" "f x w' = (r, w'', e2)" "evs = e1 @ e2"
  using assms by (auto simp: bnd_run)

lemma call_events: "call req wrap g w = (r, w', evs) \<Longrightarrow> evs = [Call req (map_sum id wrap r)]"
  by (simp add: call_run)

subsection \<open>Events a computation can produce\<close>

lemma emitsD: "emits P m \<Longrightarrow> m w = (r, w', evs) \<Longrightarrow> list_all P evs"
  by (auto simp: emits_def)

lemma returnsD: "returns Q m \<Longrightarrow> m w = (Inr x, w', evs) \<Longrightarrow> Q x"
  by (auto simp: returns_def)

lemma returns_mono: "returns Q' m \<Longrightarrow> (\<And>x. Q' x \<Longrightarrow> Q x) \<Longrightarrow> returns Q m"
  by (auto simp: returns_def)

lemma emits_mono: "emits P' m \<Longrightarrow> (\<And>ev. P' ev \<Longrightarrow> P ev) \<Longrightarrow> emits P m"
  unfolding emits_def list_all_iff by blast

lemma emits_ret: "emits P (ret x)"
  by (simp add: emits_def ret_run)

lemma emits_throw: "emits P (throw e)"
  by (simp add: emits_def throw_run)

lemma emits_sleep: "P (Sleep ms) \<Longrightarrow> emits P (sleep api ms)"
  by (simp add: emits_def sleep_run)

lemma emits_console: "P (Console lvl s) \<Longrightarrow> emits P (console lvl s)"
  by (simp add: emits_def console_run)

lemma emits_now_iso: "emits P (now_iso api)"
  by (simp add: emits_def now_iso_run)

lemma emits_call: "(\<And>out. P (Call req out)) \<Longrightarrow> emits P (call req wrap g)"
  by (simp add: emits_def call_run)

lemma emits_bnd: "emits P m \<Longrightarrow> (\<And>x. emits P (f x)) \<Longrightarrow> emits P (bnd m f)"
  unfolding emits_def bnd_run by (metis list_all_append)

lemma emits_bnd_val:
  "emits P m \<Longrightarrow> returns Q m \<Longrightarrow> (\<And>x. Q x \<Longrightarrow> emits P (f x)) \<Longrightarrow> emits P (bnd m f)"
  unfolding emits_def returns_def bnd_run by (metis list_all_append)

lemma emits_try_catch: "emits P m \<Longrightarrow> (\<And>e. emits P (h e)) \<Longrightarrow> emits P (try_catch m h)"
  unfolding emits_def try_catch_run by (metis list_all_append)

lemma emits_if: "(c \<Longrightarrow> emits P a) \<Longrightarrow> (\<not> c \<Longrightarrow> emits P b) \<Longrightarrow> emits P (if c then a else b)"
  by simp

lemma emits_promise_all: "(\<And>m. m \<in> set ms \<Longrightarrow> emits P m) \<Longrightarrow> emits P (promise_all ms)"
proof (induction ms)
  case Nil
  show ?case by (simp add: emits_ret)
next
  case (Cons m ms)
  have m: "emits P m" and ms: "emits P (promise_all ms)"
    using Cons by simp_all
  show ?case
    unfolding emits_def
  proof (intro allI impI)
    fix w r w' evs
    assume run: "promise_all (m # ms) w = (r, w', evs)"
    obtain r1 w1 e1 where r1: "m w = (r1, w1, e1)" by (cases "m w")
    obtain r2 w2 e2 where r2: "promise_all ms w1 = (r2, w2, e2)" by (cases "promise_all ms w1")
    from run r1 r2 have "evs = e1 @ e2" by simp
    with emitsD [OF m r1] emitsD [OF ms r2] show "list_all P evs" by simp
  qed
qed


lemmas call_defs = users_getAuthenticated_def repos_get_def repos_createForAuthenticatedUser_def
  repos_getContent_def repos_deleteFile_def repos_createOrUpdateFileContents_def
  repos_getBranchProtection_def repos_updateBranchProtection_def repos_listCommits_def
  repos_listBranches_def git_getRef_def git_getCommit_def git_getTree_def git_getBlob_def
  git_createBlob_def git_createTree_def git_createCommit_def git_updateRef_def git_createRef_def
  pulls_create_def

lemmas emits_intros = emits_ret emits_throw emits_sleep emits_console emits_now_iso emits_call
  emits_bnd emits_try_catch emits_if emits_promise_all

subsection \<open>Enumeration\<close>

lemma emits_fetch_item: "emits (is_enumeration owner repo) (fetch_item api this owner repo item)"
  unfolding fetch_item_def git_getBlob_def Let_def
  by (auto split: option.splits intro!: emits_intros)

lemma emits_getAllFiles_loop:
  "emits (is_enumeration owner repo) (getAllFiles_loop api this owner repo blobs i files)"
proof (induction api this owner repo blobs i files rule: getAllFiles_loop.induct)
  case (1 api this owner repo blobs i files)
  show ?case
    by (subst getAllFiles_loop.simps) (auto intro!: emits_intros emits_fetch_item 1)
qed

lemma emits_getAllFiles: "emits (is_enumeration owner repo) (getAllFiles api this owner repo ref)"
  unfolding getAllFiles_def git_getRef_def git_getCommit_def git_getTree_def Let_def
  by (auto split: option.splits intro!: emits_intros emits_getAllFiles_loop)

subsection \<open>Tree building\<close>

lemma emits_createBlobWithRetry:
  "emits (\<lambda>ev. is_blob_attempt ev \<or> is_error_line ev)
     (createBlobWithRetry api this owner repo f retries i)"
proof (induction api this owner repo f retries i rule: createBlobWithRetry.induct)
  case (1 api this owner repo f retries i)
  show ?case
    by (subst createBlobWithRetry.simps) (auto simp: git_createBlob_def intro!: emits_intros 1)
qed

lemma emits_blob_entry:
  "emits (\<lambda>ev. is_blob_attempt ev \<or> is_error_line ev) (blob_entry api this owner repo f)"
  unfolding blob_entry_def by (intro emits_intros emits_createBlobWithRetry)

lemma emits_createTree_loop:
  "emits (\<lambda>ev. is_blob_attempt ev \<or> is_error_line ev)
     (createTree_loop api this owner repo files i tree)"
proof (induction api this owner repo files i tree rule: createTree_loop.induct)
  case (1 api this owner repo files i tree)
  show ?case
    by (subst createTree_loop.simps) (auto intro!: emits_intros emits_blob_entry 1)
qed

lemma blob_phase_build: "is_blob_attempt ev \<or> is_error_line ev \<Longrightarrow> is_build ev"
  by (cases ev rule: is_build.cases) auto

lemma blob_phase_no_tree: "is_blob_attempt ev \<or> is_error_line ev \<Longrightarrow> \<not> is_create_tree ev"
  by (cases ev rule: is_create_tree.cases) auto

lemma emits_createTree: "emits is_build (createTree api this owner repo files baseTree)"
  unfolding createTree_def git_createTree_def
  by (auto intro!: emits_intros emits_mono [OF emits_createTree_loop blob_phase_build])

lemma returns_ret: "Q x \<Longrightarrow> returns Q (ret x)"
  by (simp add: returns_def ret_run)

lemma returns_throw: "returns Q (throw e)"
  by (simp add: returns_def throw_run)

lemma returns_bnd: "(\<And>x. returns Q (f x)) \<Longrightarrow> returns Q (bnd m f)"
  unfolding returns_def bnd_run by blast

lemma returns_bnd_val: "returns Q' m \<Longrightarrow> (\<And>x. Q' x \<Longrightarrow> returns Q (f x)) \<Longrightarrow> returns Q (bnd m f)"
  unfolding returns_def bnd_run by blast

lemma returns_try_catch: "returns Q m \<Longrightarrow> (\<And>e. returns Q (h e)) \<Longrightarrow> returns Q (try_catch m h)"
  unfolding returns_def try_catch_run by blast

lemma returns_if: "(c \<Longrightarrow> returns Q a) \<Longrightarrow> (\<not> c \<Longrightarrow> returns Q b) \<Longrightarrow> returns Q (if c then a else b)"
  by simp

lemma returns_True: "returns (\<lambda>_. True) m"
  by (simp add: returns_def)

lemma promise_all_Cons_Inr:
  "promise_all (m # ms) w = (Inr ys, w', evs) \<longleftrightarrow>
     (\<exists>x w1 e1 xs e2. m w = (Inr x, w1, e1) \<and> promise_all ms w1 = (Inr xs, w', e2)
        \<and> ys = x # xs \<and> evs = e1 @ e2)"
  by (auto split: prod.splits sum.splits)

lemma returns_promise_all_map:
  assumes "\<And>f. f \<in> set fs \<Longrightarrow> returns (\<lambda>y. h y = k f) (g f)"
  shows "returns (\<lambda>ys. map h ys = map k fs) (promise_all (map g fs))"
  using assms
proof (induction fs)
  case Nil
  show ?case by (simp add: returns_ret)
next
  case (Cons f fs)
  have hd: "returns (\<lambda>y. h y = k f) (g f)" and tl: "returns (\<lambda>ys. map h ys = map k fs) (promise_all (map g fs))"
    using Cons by simp_all
  show ?case
    unfolding returns_def list.map promise_all_Cons_Inr
    using returnsD [OF hd] returnsD [OF tl] by fastforce
qed

lemma returns_blob_entry:
  "returns (\<lambda>en. entry_path en = file_path f) (blob_entry api this owner repo f)"
  unfolding blob_entry_def by (intro returns_bnd returns_ret) simp

lemma returns_createTree_loop:
  "returns (\<lambda>t. map entry_path t = map entry_path tree @ map file_path (drop i files))
     (createTree_loop api this owner repo files i tree)"
proof (induction api this owner repo files i tree rule: createTree_loop.induct)
  case (1 api this owner repo files i tree)
  show ?case
  proof (cases "i < length files")
    case False
    then show ?thesis
      by (subst createTree_loop.simps) (simp add: returns_ret)
  next
    case True
    have batch: "returns (\<lambda>ys. map entry_path ys = map file_path (take 5 (drop i files)))
        (promise_all (map (blob_entry api this owner repo) (take 5 (drop i files))))"
      by (rule returns_promise_all_map) (rule returns_blob_entry)
    have join: "map file_path (take 5 (drop i files)) @ map file_path (drop (i + 5) files)
        = map file_path (drop i files)"
      by (metis add.commute append_take_drop_id drop_drop map_append)
    have step: "returns (\<lambda>t. map entry_path t = map entry_path tree @ map file_path (drop i files))
         (createTree_loop api this owner repo files (i + 5) (tree @ x))"
      if x: "map entry_path x = map file_path (take 5 (drop i files))" for x
    proof (rule returns_mono)
      show "returns (\<lambda>t. map entry_path t = map entry_path (tree @ x) @ map file_path (drop (i + 5) files))
         (createTree_loop api this owner repo files (i + 5) (tree @ x))"
        by (rule 1 [OF True])
    next
      fix t :: "tree_entry list"
      assume "map entry_path t = map entry_path (tree @ x) @ map file_path (drop (i + 5) files)"
      then show "map entry_path t = map entry_path tree @ map file_path (drop i files)"
        using x join by simp
    qed
    show ?thesis
      apply (subst createTree_loop.simps)
      apply (simp only: True if_True)
      apply (rule returns_bnd_val [OF batch])
      apply (rule returns_bnd)
      apply (erule step)
      done
  qed
qed


lemma emits_okD: "emits_ok P m \<Longrightarrow> m w = (Inr x, w', evs) \<Longrightarrow> list_all P evs"
  by (auto simp: emits_ok_def)

lemma emits_ok_weaken: "emits P m \<Longrightarrow> emits_ok P m"
  by (auto simp: emits_def emits_ok_def)

lemma emits_ok_never: "returns (\<lambda>_. False) m \<Longrightarrow> emits_ok P m"
  by (auto simp: returns_def emits_ok_def)

lemma emits_ok_bnd: "emits_ok P m \<Longrightarrow> (\<And>x. emits_ok P (f x)) \<Longrightarrow> emits_ok P (bnd m f)"
  unfolding emits_ok_def bnd_run by (metis Inl_Inr_False list_all_append)

lemma emits_ok_try_catch:
  "emits P m \<Longrightarrow> (\<And>e. emits_ok P (h e)) \<Longrightarrow> emits_ok P (try_catch m h)"
  unfolding emits_ok_def emits_def try_catch_run by (metis list_all_append)

lemma emits_ok_promise_all:
  "(\<And>m. m \<in> set ms \<Longrightarrow> emits_ok P m) \<Longrightarrow> emits_ok P (promise_all ms)"
proof (induction ms)
  case Nil
  show ?case by (simp add: emits_ok_def ret_run)
next
  case (Cons m ms)
  have m: "emits_ok P m" and ms: "emits_ok P (promise_all ms)"
    using Cons by simp_all
  show ?case
    unfolding emits_ok_def promise_all_Cons_Inr
    using emits_okD [OF m] emits_okD [OF ms] by fastforce
qed

lemma emits_ok_createBlobWithRetry:
  "emits_ok is_blob_attempt (createBlobWithRetry api this owner repo f retries i)"
proof (induction api this owner repo f retries i rule: createBlobWithRetry.induct)
  case (1 api this owner repo f retries i)
  show ?case
  proof (cases "i < retries")
    case False
    then show ?thesis
      by (subst createBlobWithRetry.simps) (simp add: emits_ok_never returns_throw)
  next
    case True
    have handler: "emits_ok is_blob_attempt
        (if i = retries - 1
         then bnd (console Error (blob_failure_line (file_path f) e))
                (\<lambda>_. throw e)
         else bnd (sleep api (2000 * (i + 1)))
                (\<lambda>_. createBlobWithRetry api this owner repo f retries (i + 1)))" for e
    proof (cases "i = retries - 1")
      case True
      then show ?thesis
        by (simp add: emits_ok_never returns_bnd returns_throw)
    next
      case False
      have "emits_ok is_blob_attempt (createBlobWithRetry api this owner repo f retries (i + 1))"
        using 1 \<open>i < retries\<close> False by blast
      then show ?thesis
        using False by (simp add: emits_ok_bnd emits_ok_weaken emits_sleep)
    qed
    show ?thesis
      apply (subst createBlobWithRetry.simps)
      apply (simp only: True if_True)
      apply (rule emits_ok_try_catch)
       apply (simp add: git_createBlob_def emits_call)
      apply (rule handler)
      done
  qed
qed

lemma bnd_okE [consumes 1, case_names ok]:
  assumes "bnd m f w = (Inr y, w'', evs)"
  obtains x w' e1 e2 where "m w = (Inr x, w', e1)" "f x w' = (Inr y, w'', e2)" "evs = e1 @ e2"
  using assms by (auto simp: bnd_run)

lemma emits_ok_blob_entry: "emits_ok is_blob_attempt (blob_entry api this owner repo f)"
  unfolding blob_entry_def
  by (rule emits_ok_bnd [OF emits_ok_createBlobWithRetry]) (rule emits_ok_weaken [OF emits_ret])

lemma emits_ok_createTree_loop:
  "emits_ok is_blob_attempt (createTree_loop api this owner repo files i tree)"
proof (induction api this owner repo files i tree rule: createTree_loop.induct)
  case (1 api this owner repo files i tree)
  show ?case
  proof (cases "i < length files")
    case False
    then show ?thesis
      by (subst createTree_loop.simps) (simp add: emits_ok_weaken emits_ret)
  next
    case True
    have batch: "emits_ok is_blob_attempt
        (promise_all (map (blob_entry api this owner repo) (take 5 (drop i files))))"
      by (rule emits_ok_promise_all) (auto simp: emits_ok_blob_entry)
    have pause: "emits_ok is_blob_attempt (if i + 5 < length files then sleep api 500 else ret ())"
      by (simp add: emits_ok_weaken emits_sleep emits_ret)
    show ?thesis
      apply (subst createTree_loop.simps)
      apply (simp only: True if_True)
      apply (intro emits_ok_bnd batch pause)
      apply (rule 1 [OF True])
      done
  qed
qed

lemma createTree_ok:
  assumes "createTree api this owner repo files baseTree w = (Inr t, w', evs)"
  shows "\<exists>pre entries.
     evs = pre @ [Call (GitCreateTree (octokit this) owner repo entries
                          (if truthy baseTree then baseTree else None)) (Inr (RSha t))]
     \<and> map entry_path entries = map file_path files
     \<and> list_all is_blob_attempt pre"
proof -
  from assms [unfolded createTree_def] show ?thesis
  proof (cases rule: bnd_okE)
    case (ok u w1 e1 r1)
    from ok(1) have e1: "e1 = [Sleep 1000]" by (simp add: sleep_run)
    from ok(2) show ?thesis
    proof (cases rule: bnd_okE)
      case loop: (ok entries w2 e2 r2)
      from returnsD [OF returns_createTree_loop loop(1)]
      have paths: "map entry_path entries = map file_path files" by simp
      from emits_okD [OF emits_ok_createTree_loop loop(1)]
      have quiet: "list_all is_blob_attempt e2" .
      from loop(2) have "r2 = [Call (GitCreateTree (octokit this) owner repo entries
                          (if truthy baseTree then baseTree else None)) (Inr (RSha t))]"
        by (auto simp: try_catch_run bnd_run console_run throw_run git_createTree_def call_run
            split: if_splits)
      with ok(3) loop(3) e1 paths quiet show ?thesis by simp
    qed
  qed
qed

text \<open>Every tree request of a build carries one entry for each file, in order.\<close>

lemma emits_createTree_paths:
  "emits (\<lambda>ev. is_create_tree ev \<longrightarrow> tree_paths ev = map file_path files)
     (createTree api this owner repo files baseTree)"
proof -
  have loop: "emits (\<lambda>ev. is_create_tree ev \<longrightarrow> tree_paths ev = map file_path files)
      (createTree_loop api this owner repo files 0 [])"
    by (rule emits_mono [OF emits_createTree_loop]) (simp add: blob_phase_no_tree)
  have paths: "returns (\<lambda>t. map entry_path t = map file_path files)
      (createTree_loop api this owner repo files 0 [])"
    using returns_createTree_loop [of "[]" 0 files api this owner repo] by simp
  show ?thesis
    unfolding createTree_def git_createTree_def
    apply (rule emits_bnd)
     apply (simp add: emits_sleep)
    apply (rule emits_bnd_val [OF loop paths])
    apply (auto intro!: emits_intros)
    done
qed


subsection \<open>The steps of a sync\<close>

lemma sync_branch_name_run:
  assumes "sync_branch_name api options d w = (r, w', evs)"
  shows "w' = w \<and> evs = [] \<and>
     r = Inr (if (case directToMain options of None \<Rightarrow> False | Some b \<Rightarrow> b) then d
              else if truthy (targetBranch options) then or_default (targetBranch options) []
              else generated_branch_name (rt_now_iso api w))"
  using assms unfolding sync_branch_name_def
  by (auto simp: run_simps split: if_splits)

lemma sync_pull_request_run:
  assumes "sync_pull_request api this options d b tc n w = (r, w', evs)"
  shows "(if (case createPullRequest options of None \<Rightarrow> True | Some b \<Rightarrow> b) \<and> b \<noteq> d
          then (\<exists>pr. r = Inr (Some (pr_html_url pr)) \<and>
                  evs = [Call (pull_request_request this options tc n b d) (Inr (RPull pr))])
               \<or> (\<exists>e. r = Inr None \<and>
                  evs = [Call (pull_request_request this options tc n b d) (Inl e),
                         Console Error (pull_request_error api e)])
          else r = Inr None \<and> evs = [])"
  using assms unfolding sync_pull_request_def pulls_create_def pull_request_request_def
  by (auto simp: run_simps split: if_splits)


lemma emits_sync_branch: "emits is_prelude (sync_branch api this tO tR d b)"
  unfolding sync_branch_def git_getRef_def git_createRef_def git_getCommit_def
  by (auto intro!: emits_intros)

lemma sync_tree_cases [consumes 1, case_names built retried]:
  assumes "sync_tree api this tO tR fs cc w = (r, w', evs)"
  obtains (built) t where
      "createTree api this tO tR fs (Some (commit_tree_sha cc)) w = (Inr t, w', evs)" "r = Inr t"
  | (retried) e1 w1 ev1 ev2 where
      "createTree api this tO tR fs (Some (commit_tree_sha cc)) w = (Inl e1, w1, ev1)"
      "createTree api this tO tR fs None w1 = (r, w', ev2)"
      "evs = ev1 @ [Console Warn (base_tree_warning e1)] @ ev2"
  using assms unfolding sync_tree_def
  by (auto simp: try_catch_run bnd_run console_run)

lemma sync_write_cases [consumes 1, case_names tree_failed commit_failed ref_failed synced]:
  assumes "sync_write api this options d b tc files bref cc w = (r, w', evs)"
  obtains
    (tree_failed) e where
      "sync_tree api this (targetOwner options) (targetRepo options) (filesToSync_of files) cc w
         = (Inl e, w', evs)"
      "r = Inl e"
  | (commit_failed) tree w1 tevs e where
      "sync_tree api this (targetOwner options) (targetRepo options) (filesToSync_of files) cc w
         = (Inr tree, w1, tevs)"
      "r = Inl e"
      "evs = tevs @ [Call (commit_request this options tc tree bref) (Inl e)]"
  | (ref_failed) tree w1 tevs commit e where
      "sync_tree api this (targetOwner options) (targetRepo options) (filesToSync_of files) cc w
         = (Inr tree, w1, tevs)"
      "r = Inl e"
      "evs = tevs @ [Call (commit_request this options tc tree bref) (Inr (RCommit commit)),
                     Call (update_ref_request this options b commit) (Inl e)]"
  | (synced) tree w1 tevs commit w3 url pevs where
      "sync_tree api this (targetOwner options) (targetRepo options) (filesToSync_of files) cc w
         = (Inr tree, w1, tevs)"
      "sync_pull_request api this options d b tc (length (filesToSync_of files)) w3
         = (Inr url, w', pevs)"
      "r = Inr \<lparr>success = True, filesCount = length (filesToSync_of files),
                 syncBranch = Some b, pullRequestUrl = url,
                 message = ''Successfully synced with template '' @ sourceOwner options @ ''/''
                             @ sourceRepo options\<rparr>"
      "evs = tevs @ [Call (commit_request this options tc tree bref) (Inr (RCommit commit)),
                     Call (update_ref_request this options b commit) (Inr RUnit)] @ pevs"
proof -
  from assms [unfolded sync_write_def Let_def] show thesis
  proof (cases rule: bndE)
    case (fail e)
    then show thesis by (rule tree_failed)
  next
    case s1: (ok tree w1 tevs r1)
    from s1(2) show thesis
    proof (cases rule: bndE)
      case (fail e)
      from fail(1) have "r1 = [Call (commit_request this options tc tree bref) (Inl e)]"
        by (simp add: createCommit_def git_createCommit_def call_run commit_request_def)
      with s1 fail show thesis by (intro commit_failed) simp_all
    next
      case s2: (ok commit w2 e2 r2)
      from s2(1) have e2: "e2 = [Call (commit_request this options tc tree bref) (Inr (RCommit commit))]"
        by (simp add: createCommit_def git_createCommit_def call_run commit_request_def)
      from s2(2) show thesis
      proof (cases rule: bndE)
        case (fail e)
        from fail(1) have "r2 = [Call (update_ref_request this options b commit) (Inl e)]"
          by (simp add: git_updateRef_def call_run update_ref_request_def)
        with s1 s2 e2 fail show thesis by (intro ref_failed) simp_all
      next
        case s3: (ok u w3 e3 r3)
        from s3(1) have e3: "e3 = [Call (update_ref_request this options b commit) (Inr RUnit)]"
          by (simp add: git_updateRef_def call_run update_ref_request_def)
        from s3(2) show thesis
        proof (cases rule: bndE)
          case (fail e)
          from sync_pull_request_run [OF fail(1)] show thesis by (simp split: if_splits)
        next
          case s4: (ok url w4 pevs r4)
          from s4(2) have "w' = w4" "r4 = []" and
            r: "r = Inr \<lparr>success = True, filesCount = length (filesToSync_of files),
                 syncBranch = Some b, pullRequestUrl = url,
                 message = ''Successfully synced with template '' @ sourceOwner options @ ''/''
                             @ sourceRepo options\<rparr>"
            by (simp_all add: ret_run)
          with s1 s2 s3 s4 e2 e3 show thesis by (intro synced) simp_all
        qed
      qed
    qed
  qed
qed


lemma try_rethrowE [consumes 1, case_names body]:
  assumes "try_catch m (\<lambda>e. bnd (console lvl (g e)) (\<lambda>_. throw (h e))) w = (r, w', evs)"
  obtains rb bev where "m w = (rb, w', bev)"
    "case rb of Inr x \<Rightarrow> r = Inr x \<and> evs = bev
              | Inl e \<Rightarrow> r = Inl (h e) \<and> evs = bev @ [Console lvl (g e)]"
  using assms by (auto simp: try_catch_run bnd_run console_run throw_run)

lemma enumeration_prelude: "is_enumeration owner repo ev \<Longrightarrow> is_prelude ev"
  by (cases "(owner, repo, ev)" rule: is_enumeration.cases) auto

lemma sync_opening_prelude: "list_all is_prelude (sync_opening this options td sd tcs)"
  by (simp add: sync_opening_def)

lemma sync_cases [consumes 1, case_names failed_early nothing_to_sync written]:
  assumes run: "syncWithTemplate api this options w = (r, w', evs)"
  obtains
    (failed_early) e pre where
      "r = Inl (sync_error e)"
      "evs = pre @ [Console Error (sync_failure_line api e)]"
      "list_all is_prelude pre"
  | (nothing_to_sync) td sd tc tcs w3 fevs where
      "r = Inr nothing_to_sync"
      "getAllFiles api this (sourceOwner options) (sourceRepo options)
         (or_default (default_branch sd) ''main'') w3 = (Inr [], w', fevs)"
      "evs = sync_opening this options td sd (tc # tcs) @ fevs"
  | (written) td sd tc tcs b files w3 w4 fevs bref cc w5 bevs rw wevs w1 w2 where
      "sync_branch_name api options (or_default (default_branch td) ''main'') w3 = (Inr b, w3, [])"
      "getAllFiles api this (sourceOwner options) (sourceRepo options)
         (or_default (default_branch sd) ''main'') w3 = (Inr files, w4, fevs)"
      "files \<noteq> []"
      "sync_branch api this (targetOwner options) (targetRepo options)
         (or_default (default_branch td) ''main'') b w4 = (Inr (bref, cc), w5, bevs)"
      "sync_write api this options (or_default (default_branch td) ''main'') b tc files bref cc w5
         = (rw, w', wevs)"
      "case rw of
         Inr res \<Rightarrow> r = Inr res
           \<and> evs = sync_opening this options td sd (tc # tcs) @ fevs @ bevs @ wevs
       | Inl e \<Rightarrow> r = Inl (sync_error e)
           \<and> evs = sync_opening this options td sd (tc # tcs) @ fevs @ bevs @ wevs
                   @ [Console Error (sync_failure_line api e)]"
      "api_repos_get api (octokit this) (targetOwner options) (targetRepo options) w
         = (Inr td, w1)"
      "api_repos_get api (src_client this options) (sourceOwner options) (sourceRepo options) w1
         = (Inr sd, w2)"
      "api_repos_listCommits api (src_client this options) (sourceOwner options)
         (sourceRepo options) (Some (or_default (default_branch sd) ''main'')) 1 w2
         = (Inr (tc # tcs), w3)"
proof -
  from run [unfolded syncWithTemplate_def Let_def] show thesis
  proof (cases rule: try_rethrowE)
    case (body rb bev)
    note outcome = body(2)
    from body(1) show thesis
    proof (cases rule: bndE)
      case (fail e)
      from fail(1) have "bev = [Call (ReposGet (octokit this) (targetOwner options) (targetRepo options)) (Inl e)]"
        by (simp add: repos_get_def call_run)
      with outcome fail(2) show thesis by (intro failed_early [of e bev]) simp_all
    next
      case s1: (ok td w1 e1 r1)
      from s1(1) have e1: "e1 = [Call (ReposGet (octokit this) (targetOwner options) (targetRepo options))
          (Inr (RRepo td))]"
        by (simp add: repos_get_def call_run)
      from s1(2) show thesis
      proof (cases rule: bndE)
        case (fail e)
        from fail(1) have "r1 = [Call (ReposGet (src_client this options) (sourceOwner options)
            (sourceRepo options)) (Inl e)]"
          by (simp add: repos_get_def call_run)
        with outcome fail(2) s1(3) e1 show thesis by (intro failed_early [of e bev]) simp_all
      next
        case s2: (ok sd w2 e2 r2)
        from s2(1) have e2: "e2 = [Call (ReposGet (src_client this options) (sourceOwner options)
            (sourceRepo options)) (Inr (RRepo sd))]"
          by (simp add: repos_get_def call_run)
        from s2(2) show thesis
        proof (cases rule: bndE)
          case (fail e)
          from fail(1) have "r2 = [Call (ReposListCommits (src_client this options)
              (sourceOwner options) (sourceRepo options)
              (Some (or_default (default_branch sd) ''main'')) 1) (Inl e)]"
            by (simp add: repos_listCommits_def call_run)
          with outcome fail(2) s1(3) s2(3) e1 e2 show thesis
            by (intro failed_early [of e bev]) simp_all
        next
          case s3: (ok tcs0 w3 e3 r3)
          from s3(1) have e3: "e3 = [Call (ReposListCommits (src_client this options)
              (sourceOwner options) (sourceRepo options)
              (Some (or_default (default_branch sd) ''main'')) 1) (Inr (RCommits tcs0))]"
            by (simp add: repos_listCommits_def call_run)
          have open3: "e1 @ e2 @ e3 = sync_opening this options td sd tcs0"
            by (simp add: e1 e2 e3 sync_opening_def)
          have bev: "bev = sync_opening this options td sd tcs0 @ r3"
            using s1(3) s2(3) s3(3) open3 by simp
          show thesis
          proof (cases tcs0)
            case Nil
            with s3(2) have "rb = Inl (js_Error ''No commits found in template repository'')" "r3 = []"
              by (simp_all add: throw_run)
            with outcome bev show thesis
              by (intro failed_early [of _ bev]) (simp_all add: sync_opening_prelude)
          next
            case (Cons tc tcs)
            from s3(2) [unfolded Cons list.case] show thesis
            proof (cases rule: bndE)
              case (fail e)
              from sync_branch_name_run [OF fail(1)] show thesis by simp
            next
              case s4: (ok b w4 e4 r4)
              from sync_branch_name_run [OF s4(1)] have w4: "w4 = w3" and e4: "e4 = []"
                by simp_all
              from s4(2) show thesis
              proof (cases rule: bndE)
                case (fail e)
                from emitsD [OF emits_getAllFiles fail(1)]
                have "list_all is_prelude r4"
                  by (auto simp: list_all_iff dest: enumeration_prelude)
                with outcome fail(2) bev s4(3) e4 show thesis
                  by (intro failed_early [of e bev]) (simp_all add: sync_opening_prelude)
              next
                case s5: (ok files w5 e5 r5)
                from emitsD [OF emits_getAllFiles s5(1)]
                have e5: "list_all is_prelude e5"
                  by (auto simp: list_all_iff dest: enumeration_prelude)
                show thesis
                proof (cases "files = []")
                  case True
                  with s5(2) have "rb = Inr nothing_to_sync" "w' = w5" "r5 = []"
                    by (simp_all add: ret_run)
                  with outcome bev s4(3) s5(3) e4 s5(1) True w4 Cons show thesis
                    by (intro nothing_to_sync [of sd w3 e5 td tc tcs]) simp_all
                next
                  case False
                  from s5(2) [simplified length_0_conv False if_False] show thesis
                  proof (cases rule: bndE)
                    case (fail e)
                    from emitsD [OF emits_sync_branch fail(1)]
                    have "list_all is_prelude r5" .
                    with outcome fail(2) bev s4(3) s5(3) e4 e5 show thesis
                      by (intro failed_early [of e bev]) (simp_all add: sync_opening_prelude)
                  next
                    case s6: (ok x w6 e6 r6)
                    obtain bref cc where x: "x = (bref, cc)" by (cases x)
                    note wrt = s6(2) [unfolded x prod.case]
                    have evs: "bev = sync_opening this options td sd (tc # tcs) @ e5 @ e6 @ r6"
                      using bev s4(3) s5(3) s6(3) e4 Cons by simp
                    show thesis
                    proof (rule written)
                      show "sync_branch_name api options (or_default (default_branch td) ''main'') w3
                          = (Inr b, w3, [])"
                        using s4(1) w4 e4 by simp
                      show "getAllFiles api this (sourceOwner options) (sourceRepo options)
                          (or_default (default_branch sd) ''main'') w3 = (Inr files, w5, e5)"
                        using s5(1) w4 by simp
                      show "files \<noteq> []" by fact
                      show "sync_branch api this (targetOwner options) (targetRepo options)
                          (or_default (default_branch td) ''main'') b w5 = (Inr (bref, cc), w6, e6)"
                        using s6(1) x by simp
                      show "sync_write api this options (or_default (default_branch td) ''main'') b tc
                          files bref cc w6 = (rb, w', r6)"
                        by (rule wrt)
                      show "case rb of
                          Inr res \<Rightarrow> r = Inr res
                            \<and> evs = sync_opening this options td sd (tc # tcs) @ e5 @ e6 @ r6
                        | Inl e \<Rightarrow> r = Inl (sync_error e)
                            \<and> evs = sync_opening this options td sd (tc # tcs) @ e5 @ e6 @ r6
                                    @ [Console Error (sync_failure_line api e)]"
                        using outcome evs by (simp split: sum.splits)
                      show "api_repos_get api (octokit this) (targetOwner options)
                          (targetRepo options) w = (Inr td, w1)"
                        using s1(1) by (simp add: repos_get_def call_run)
                      show "api_repos_get api (src_client this options) (sourceOwner options)
                          (sourceRepo options) w1 = (Inr sd, w2)"
                        using s2(1) by (simp add: repos_get_def call_run)
                      show "api_repos_listCommits api (src_client this options)
                          (sourceOwner options) (sourceRepo options)
                          (Some (or_default (default_branch sd) ''main'')) 1 w2
                          = (Inr (tc # tcs), w3)"
                        using s3(1) Cons by (simp add: repos_listCommits_def call_run)
                    qed
                  qed
                qed
              qed
            qed
          qed
        qed
      qed
    qed
  qed
qed


lemma emits_syncWithTemplate:
  assumes prelude: "\<And>ev. is_prelude ev \<Longrightarrow> P ev"
    and warn: "\<And>s. P (Console Warn s)"
    and tree: "\<And>files base. emits P (createTree api this (targetOwner options) (targetRepo options)
                 (filesToSync_of files) base)"
    and commit: "\<And>tc tree bref out. P (Call (commit_request this options tc tree bref) out)"
    and update: "\<And>b commit out. P (Call (update_ref_request this options b commit) out)"
    and pull: "\<And>tc n b d out. P (Call (pull_request_request this options tc n b d) out)"
  shows "emits P (syncWithTemplate api this options)"
proof -
  have enum: "emits P (getAllFiles api this owner repo ref)" for owner repo ref
    by (rule emits_mono [OF emits_getAllFiles]) (auto dest: enumeration_prelude intro: prelude)
  have branch: "emits P (sync_branch api this tO tR d b)" for tO tR d b
    by (rule emits_mono [OF emits_sync_branch]) (rule prelude)
  have name: "emits P (sync_branch_name api options d)" for d
    unfolding sync_branch_name_def by (auto intro!: emits_intros)
  have sync_tree: "emits P (sync_tree api this (targetOwner options) (targetRepo options)
      (filesToSync_of files) cc)" for files cc
    unfolding sync_tree_def by (intro emits_intros tree warn)
  have pr: "emits P (sync_pull_request api this options d b tc n)" for d b tc n
    unfolding sync_pull_request_def pulls_create_def
    using pull [unfolded pull_request_request_def] prelude [of "Console Error s" for s]
    by (auto intro!: emits_intros)
  have wr: "emits P (sync_write api this options d b tc files bref cc)" for d b tc files bref cc
    unfolding sync_write_def Let_def createCommit_def git_createCommit_def git_updateRef_def
    using commit [unfolded commit_request_def] update [unfolded update_ref_request_def]
    by (intro emits_intros sync_tree pr) auto
  show ?thesis
    unfolding syncWithTemplate_def Let_def repos_get_def repos_listCommits_def
    using prelude
    by (auto intro!: emits_intros enum branch name wr split: list.splits prod.splits)
qed


subsection \<open>The denylist\<close>

lemma starts_with_prefix: "starts_with s pre \<longleftrightarrow> prefix pre s"
  unfolding starts_with_def
  by (metis append_eq_conv_conj append_take_drop_id prefixE prefixI)

lemma of_char_upper:
  "(of_char (upper_char c) :: nat) =
     (if 97 \<le> (of_char c :: nat) \<and> (of_char c :: nat) \<le> 122 then of_char c - 32 else of_char c)"
  by (auto simp: upper_char_def)

lemma of_char_lower:
  "(of_char (lower_char c) :: nat) =
     (if 65 \<le> (of_char c :: nat) \<and> (of_char c :: nat) \<le> 90 then of_char c + 32 else of_char c)"
  by (auto simp: lower_char_def)

lemma fold_case_nat:
  fixes n m :: nat
  shows "(if 97 \<le> n \<and> n \<le> 122 then n - 32 else n) = (if 97 \<le> m \<and> m \<le> 122 then m - 32 else m)
    \<longleftrightarrow> (if 65 \<le> n \<and> n \<le> 90 then n + 32 else n) = (if 65 \<le> m \<and> m \<le> 90 then m + 32 else m)"
  by (simp split: if_splits) arith

lemma upper_eq_lower_eq: "upper_char c = upper_char d \<longleftrightarrow> lower_char c = lower_char d"
proof -
  have "upper_char c = upper_char d \<longleftrightarrow> (of_char (upper_char c) :: nat) = of_char (upper_char d)"
    by simp
  also have "\<dots> \<longleftrightarrow> (of_char (lower_char c) :: nat) = of_char (lower_char d)"
    unfolding of_char_upper of_char_lower by (rule fold_case_nat)
  also have "\<dots> \<longleftrightarrow> lower_char c = lower_char d"
    by simp
  finally show ?thesis .
qed

lemma ci_equals_lower: "ci_equals s t \<longleftrightarrow> map lower_char s = map lower_char t"
  unfolding ci_equals_def
proof (induction s arbitrary: t)
  case Nil
  show ?case by auto
next
  case (Cons c s)
  show ?case by (cases t) (auto simp: Cons upper_eq_lower_eq)
qed

lemma lower_readme: "map lower_char ''README.md'' = ''readme.md''"
  by code_simp

lemma lower_license: "map lower_char ''LICENSE'' = ''license''"
  by code_simp

lemma skipPatterns_denylisted:
  "list_ex (\<lambda>pattern. pattern p) skipPatterns \<longleftrightarrow> denylisted p"
  unfolding skipPatterns_def denylisted_def
  by (simp only: list_ex_Nil_iff list_ex_Cons_iff starts_with_prefix ci_equals_lower lower_readme lower_license
      simp_thms)

lemma filesToSync_allowed: "f \<in> set (filesToSync_of files) \<Longrightarrow> \<not> denylisted (file_path f)"
  by (simp add: filesToSync_of_def skipPatterns_denylisted)

lemma tree_paths_other: "\<not> is_create_tree ev \<Longrightarrow> tree_paths ev = []"
  by (cases ev rule: tree_paths.cases) auto

lemma prelude_no_tree: "is_prelude ev \<Longrightarrow> \<not> is_create_tree ev"
  by (cases ev rule: is_prelude.cases) auto

text \<open>
  Claim C4. Whatever the template holds and however the run ends, no tree request sent
  by \<^verbatim>\<open>syncWithTemplate\<close> carries an entry whose path begins with \<^verbatim>\<open>.git/\<close>,
  \<^verbatim>\<open>node_modules/\<close> or \<^verbatim>\<open>.env\<close>, or equals \<^verbatim>\<open>README.md\<close> or \<^verbatim>\<open>LICENSE\<close> up to
  letter case.
\<close>

theorem sync_never_writes_denylisted_path:
  assumes "syncWithTemplate api this options w = (r, w', evs)"
    and "ev \<in> set evs"
    and "p \<in> set (tree_paths ev)"
  shows "\<not> denylisted p"
proof -
  let ?P = "\<lambda>ev. \<forall>p \<in> set (tree_paths ev). \<not> denylisted p"
  have "emits ?P (syncWithTemplate api this options)"
  proof (rule emits_syncWithTemplate)
    fix files base
    show "emits ?P (createTree api this (targetOwner options) (targetRepo options)
        (filesToSync_of files) base)"
    proof (rule emits_mono [OF emits_createTree_paths])
      fix ev
      assume "is_create_tree ev \<longrightarrow> tree_paths ev = map file_path (filesToSync_of files)"
      then show "?P ev"
        by (cases "is_create_tree ev") (auto simp: tree_paths_other filesToSync_allowed)
    qed
  qed (simp_all add: tree_paths_other prelude_no_tree commit_request_def update_ref_request_def
      pull_request_request_def)
  from emitsD [OF this assms(1)] assms(2,3) show ?thesis
    by (auto simp: list_all_iff)
qed


lemma review_run_tree: "review_tree_request \<in> set (snd (snd review_run))"
  by code_simp

lemma review_run_paths: "concat (map tree_paths (snd (snd review_run))) = [''main.tf'']"
  by code_simp

theorem sync_never_writes_denylisted_path_witness:
  "concat (map tree_paths (snd (snd review_run))) = [''main.tf''] \<and> \<not> denylisted ''main.tf''"
proof -
  have run: "syncWithTemplate (script_api sc_plain) the_cloner default_options w0
      = (fst review_run, fst (snd review_run), snd (snd review_run))"
    by (simp add: review_run_def)
  have "''main.tf'' \<in> set (tree_paths review_tree_request)"
    by (simp add: review_tree_request_def)
  from sync_never_writes_denylisted_path [OF run review_run_tree this] review_run_paths
  show ?thesis by simp
qed

subsection \<open>The commit message\<close>

lemma commit_messages_other: "\<not> is_create_commit ev \<Longrightarrow> commit_messages ev = []"
  by (cases ev rule: commit_messages.cases) auto

lemma prelude_no_commit: "is_prelude ev \<Longrightarrow> \<not> is_create_commit ev"
  by (cases ev rule: is_prelude.cases) auto

lemma build_no_commit: "is_build ev \<Longrightarrow> \<not> is_create_commit ev"
  by (cases ev rule: is_build.cases) auto

lemma default_commit_message_trailer:
  "sublist (''template-sha: '' @ sha) (default_commit_message sOwner sRepo sha)"
proof -
  have "default_commit_message sOwner sRepo sha
      = (''Sync with template '' @ sOwner @ ''/'' @ sRepo @ newline @ newline)
        @ (''template-sha: '' @ sha) @ []"
    by (simp add: default_commit_message_def)
  then show ?thesis
    by (simp only: sublist_appendI)
qed




text \<open>
  Claim C10. In every run of \<^verbatim>\<open>syncWithTemplate\<close>, the message of each commit request is
  exactly the supplied \<^verbatim>\<open>commitMessage\<close> when that option is a non-empty string; when it is
  absent or empty the message is the default one, which ends with the
  \<^verbatim>\<open>template-sha:\<close> trailer. The drift check therefore reads from a custom-message
  commit only what the caller wrote.
\<close>

theorem sync_commit_message_is_supplied_string:
  assumes "syncWithTemplate api this options w = (r, w', evs)"
    and "ev \<in> set evs"
    and "m \<in> set (commit_messages ev)"
  shows "if truthy (commitMessage options) then commitMessage options = Some m
         else (\<exists>sha. m = default_commit_message (sourceOwner options) (sourceRepo options) sha
                 \<and> sublist (''template-sha: '' @ sha) m)"
proof -
  let ?P = "\<lambda>ev. \<forall>m \<in> set (commit_messages ev). \<exists>tc. m = sync_commit_message options tc"
  have "emits ?P (syncWithTemplate api this options)"
  proof (rule emits_syncWithTemplate)
    fix files base
    show "emits ?P (createTree api this (targetOwner options) (targetRepo options)
        (filesToSync_of files) base)"
      by (rule emits_mono [OF emits_createTree]) (simp add: commit_messages_other build_no_commit)
  qed (auto simp: commit_messages_other prelude_no_commit commit_request_def
      update_ref_request_def pull_request_request_def)
  from emitsD [OF this assms(1)] assms(2,3)
  obtain tc where m: "m = sync_commit_message options tc"
    by (auto simp: list_all_iff)
  show ?thesis
  proof (cases "truthy (commitMessage options)")
    case True
    then show ?thesis
      by (auto simp: m sync_commit_message_def truthy_def or_default_def split: option.splits)
  next
    case False
    then show ?thesis
      using default_commit_message_trailer by (auto simp: m sync_commit_message_def)
  qed
qed

lemma custom_run_commit:
  "Call (GitCreateCommit (octokit the_cloner) ''acme'' ''app'' ''chore: refresh from template''
           ''t1'' [''c0''])
     (Inr (RCommit \<lparr>commit_sha = ''c1'', commit_tree_sha = ''t1''\<rparr>))
   \<in> set (snd (snd custom_run))"
  by code_simp

lemma custom_run_messages:
  "concat (map commit_messages (snd (snd custom_run))) = [''chore: refresh from template'']"
  by code_simp

theorem sync_commit_message_is_supplied_string_witness:
  "commitMessage (default_options\<lparr>commitMessage := Some ''chore: refresh from template''\<rparr>)
     = Some ''chore: refresh from template''
   \<and> concat (map commit_messages (snd (snd custom_run))) = [''chore: refresh from template'']"
proof -
  have run: "syncWithTemplate (script_api sc_plain) the_cloner
      (default_options\<lparr>commitMessage := Some ''chore: refresh from template''\<rparr>) w0
      = (fst custom_run, fst (snd custom_run), snd (snd custom_run))"
    by (simp add: custom_run_def)
  have supplied: "truthy (commitMessage
      (default_options\<lparr>commitMessage := Some ''chore: refresh from template''\<rparr>))"
    by (simp add: truthy_def)
  from sync_commit_message_is_supplied_string [OF run custom_run_commit,
      of "''chore: refresh from template''"] supplied custom_run_messages
  show ?thesis by (simp only: if_True commit_messages.simps list.set insertI1 simp_thms)
qed

subsection \<open>Direct and review delivery\<close>

lemma emits_sync_tree:
  "emits is_tree_phase (sync_tree api this tO tR files cc)"
  unfolding sync_tree_def
  by (intro emits_intros emits_mono [OF emits_createTree]) (auto elim: is_build.elims)

lemma tree_phase_quiet: "is_tree_phase ev \<Longrightarrow> \<not> is_pull_request ev \<and> \<not> is_create_ref ev"
  by (cases ev rule: is_tree_phase.cases) (auto elim: is_build.elims)

lemma enumeration_quiet:
  "is_enumeration owner repo ev \<Longrightarrow> \<not> is_pull_request ev \<and> \<not> is_create_ref ev \<and> \<not> is_write ev"
  by (cases "(owner, repo, ev)" rule: is_enumeration.cases) auto

lemma prelude_no_pull: "is_prelude ev \<Longrightarrow> \<not> is_pull_request ev"
  by (cases ev rule: is_prelude.cases) auto

lemma list_ex_quiet: "list_all P evs \<Longrightarrow> (\<And>ev. P ev \<Longrightarrow> \<not> Q ev) \<Longrightarrow> \<not> list_ex Q evs"
  by (auto simp: list_all_iff list_ex_iff)







text \<open>
  Claim C9. Whenever the pull-request request of a \<^verbatim>\<open>syncWithTemplate\<close> run is rejected, the
  run still returns a success result, for the branch the pull request was to be opened
  from and without a pull request URL; the commit had been created and the branch ref
  moved to it, and after the rejection the run only logs the error: its trace ends with
  the commit request, the ref update, the rejected request and the error line.
\<close>

theorem pull_request_failure_is_not_fatal:
  assumes run: "syncWithTemplate api this options w = (r, w', evs)"
    and rejected: "Call (PullsCreate c owner repo title body head base) (Inl e) \<in> set evs"
  shows "\<exists>res pre tc tree (bref :: git_ref) commit.
     r = Inr res \<and> success res \<and> syncBranch res = Some head \<and> pullRequestUrl res = None
     \<and> evs = pre
          @ [Call (GitCreateCommit (octokit this) (targetOwner options) (targetRepo options)
                     (sync_commit_message options tc) tree [object_sha bref])
               (Inr (RCommit commit)),
             Call (GitUpdateRef (octokit this) (targetOwner options) (targetRepo options)
                     (''heads/'' @ head) (commit_sha commit) None) (Inr RUnit),
             Call (PullsCreate c owner repo title body head base) (Inl e),
             Console Error (pull_request_error api e)]"
proof -
  let ?ev = "Call (PullsCreate c owner repo title body head base) (Inl e)"
  have not_in: "?ev \<notin> set xs" if "list_all P xs" "\<And>ev. P ev \<Longrightarrow> \<not> is_pull_request ev" for P xs
    using that(2) [of ?ev] that(1) by (auto simp: list_all_iff)
  from run show ?thesis
  proof (cases rule: sync_cases)
    case (failed_early e' pre)
    with rejected not_in [OF failed_early(3) prelude_no_pull] show ?thesis by simp
  next
    case (nothing_to_sync td sd tc tcs w3 fevs)
    from emitsD [OF emits_getAllFiles nothing_to_sync(2)]
    have "?ev \<notin> set fevs" by (rule not_in) (simp add: enumeration_quiet)
    with rejected nothing_to_sync(3) show ?thesis by (simp add: sync_opening_def)
  next
    case (written td sd tc tcs b files w3 w4 fevs bref cc w5 bevs rw wevs)
    from emitsD [OF emits_getAllFiles written(2)]
    have fevs: "?ev \<notin> set fevs" by (rule not_in) (simp add: enumeration_quiet)
    from emitsD [OF emits_sync_branch written(4)]
    have bevs: "?ev \<notin> set bevs" by (rule not_in) (simp add: prelude_no_pull)
    have "?ev \<in> set (sync_opening this options td sd (tc # tcs) @ fevs @ bevs @ wevs)"
      using written(6) rejected by (cases rw) auto
    with fevs bevs have in_wevs: "?ev \<in> set wevs" by (simp add: sync_opening_def)
    from written(5) show ?thesis
    proof (cases rule: sync_write_cases)
      case (tree_failed e')
      from emitsD [OF emits_sync_tree tree_failed(1)]
      have "?ev \<notin> set wevs" by (rule not_in) (simp add: tree_phase_quiet)
      with in_wevs show ?thesis by simp
    next
      case (commit_failed tree w1 tevs e')
      from emitsD [OF emits_sync_tree commit_failed(1)]
      have "?ev \<notin> set tevs" by (rule not_in) (simp add: tree_phase_quiet)
      with in_wevs commit_failed(3) show ?thesis by (simp add: commit_request_def)
    next
      case (ref_failed tree w1 tevs commit e')
      from emitsD [OF emits_sync_tree ref_failed(1)]
      have "?ev \<notin> set tevs" by (rule not_in) (simp add: tree_phase_quiet)
      with in_wevs ref_failed(3) show ?thesis
        by (simp add: commit_request_def update_ref_request_def)
    next
      case (synced tree w1 tevs commit w6 url pevs)
      from emitsD [OF emits_sync_tree synced(1)]
      have "?ev \<notin> set tevs" by (rule not_in) (simp add: tree_phase_quiet)
      with in_wevs synced(4) have in_pevs: "?ev \<in> set pevs"
        by (simp add: commit_request_def update_ref_request_def)
      let ?R = "\<lparr>success = True,
          filesCount = length (filesToSync_of files), syncBranch = Some b, pullRequestUrl = url,
          message = ''Successfully synced with template '' @ sourceOwner options @ ''/''
                      @ sourceRepo options\<rparr>"
      let ?rq = "pull_request_request this options tc (length (filesToSync_of files)) b
          (or_default (default_branch td) ''main'')"
      from sync_pull_request_run [OF synced(2)]
      have "pevs = [] \<or> (\<exists>pr. pevs = [Call ?rq (Inr (RPull pr))])
          \<or> (\<exists>e'. url = None \<and> pevs = [Call ?rq (Inl e'), Console Error (pull_request_error api e')])"
        by (auto split: if_splits)
      with in_pevs have url: "url = None"
        and pevs: "pevs = [Call ?rq (Inl e), Console Error (pull_request_error api e)]"
        and rq: "PullsCreate c owner repo title body head base = ?rq"
        by auto
      from rq have head: "head = b" by (simp add: pull_request_request_def)
      from written(6) synced(3) have r: "r = Inr ?R"
        and evs: "evs = sync_opening this options td sd (tc # tcs) @ fevs @ bevs @ wevs"
        by simp_all
      define res where "res = ?R"
      have fields: "r = Inr res" "success res" "syncBranch res = Some head"
        "pullRequestUrl res = None"
        by (simp_all add: res_def r head url)
      have shape: "evs = (sync_opening this options td sd (tc # tcs) @ fevs @ bevs @ tevs)
          @ [Call (GitCreateCommit (octokit this) (targetOwner options) (targetRepo options)
                     (sync_commit_message options tc) tree [object_sha bref])
               (Inr (RCommit commit)),
             Call (GitUpdateRef (octokit this) (targetOwner options) (targetRepo options)
                     (''heads/'' @ head) (commit_sha commit) None) (Inr RUnit),
             ?ev, Console Error (pull_request_error api e)]"
        unfolding evs synced(4) pevs rq [symmetric] commit_request_def update_ref_request_def
          head
        by (simp only: append_assoc append_Cons append_Nil)
      with fields show ?thesis by blast
    qed
  qed
qed


lemma rejected_pull_run_event:
  "Call (PullsCreate (octokit the_cloner) ''acme'' ''app''
           (pull_request_title ''acme'' ''template'')
           (pull_request_body ''acme'' ''template'' template_head 1)
           ''sync-template-2026-01-02T03-04-05'' ''main'')
     (Inl (ApiError (Some 422) ''Validation Failed''))
   \<in> set (snd (snd rejected_pull_run))"
  by code_simp

theorem pull_request_failure_is_not_fatal_witness:
  "Call (PullsCreate (octokit the_cloner) ''acme'' ''app''
           (pull_request_title ''acme'' ''template'')
           (pull_request_body ''acme'' ''template'' template_head 1)
           ''sync-template-2026-01-02T03-04-05'' ''main'')
     (Inl (ApiError (Some 422) ''Validation Failed''))
   \<in> set (snd (snd rejected_pull_run))
   \<and> (\<exists>res. fst rejected_pull_run = Inr res \<and> success res
        \<and> syncBranch res = Some ''sync-template-2026-01-02T03-04-05''
        \<and> pullRequestUrl res = None)"
proof -
  have run: "syncWithTemplate (script_api (sc_plain\<lparr>sc_pull_rejected := True\<rparr>)) the_cloner
      default_options w0
      = (fst rejected_pull_run, fst (snd rejected_pull_run), snd (snd rejected_pull_run))"
    by (simp add: rejected_pull_run_def)
  from pull_request_failure_is_not_fatal [OF run rejected_pull_run_event]
  have "\<exists>res. fst rejected_pull_run = Inr res \<and> success res
        \<and> syncBranch res = Some ''sync-template-2026-01-02T03-04-05''
        \<and> pullRequestUrl res = None"
    by blast
  with rejected_pull_run_event show ?thesis by (rule conjI)
qed









subsection \<open>The second tree build\<close>

lemma build_no_warning: "is_build ev \<Longrightarrow> \<not> is_warning ev"
  by (cases ev rule: is_build.cases) auto

lemma prelude_no_warning: "is_prelude ev \<Longrightarrow> \<not> is_warning ev"
  by (cases ev rule: is_prelude.cases) auto

lemma filter_quiet: "list_all P evs \<Longrightarrow> (\<And>ev. P ev \<Longrightarrow> \<not> Q ev) \<Longrightarrow> filter Q evs = []"
  by (induction evs) auto

lemma sync_write_shape:
  assumes "sync_write api this options d b tc files bref cc w = (rw, w', wevs)"
  obtains rt w6 tevs post where
    "sync_tree api this (targetOwner options) (targetRepo options) (filesToSync_of files) cc w
       = (rt, w6, tevs)"
    "wevs = tevs @ post"
    "\<not> list_ex is_tree_build post" "\<not> list_ex is_warning post"
    "case rt of Inl e \<Rightarrow> rw = Inl e \<and> post = []
     | Inr t \<Rightarrow> \<exists>out rest. post = Call (commit_request this options tc t bref) out # rest"
  using assms
proof (cases rule: sync_write_cases)
  case (tree_failed e)
  show ?thesis
    by (rule that [OF tree_failed(1), of "[]"]) (simp_all add: tree_failed(2))
next
  case (commit_failed tree w1 tevs e)
  show ?thesis
    by (rule that [OF commit_failed(1), of "[Call (commit_request this options tc tree bref) (Inl e)]"])
      (simp_all add: commit_failed(3) commit_request_def)
next
  case (ref_failed tree w1 tevs commit e)
  show ?thesis
    by (rule that [OF ref_failed(1),
          of "[Call (commit_request this options tc tree bref) (Inr (RCommit commit)),
               Call (update_ref_request this options b commit) (Inl e)]"])
      (simp_all add: ref_failed(3) commit_request_def update_ref_request_def)
next
  case (synced tree w1 tevs commit w3 url pevs)
  from sync_pull_request_run [OF synced(2)]
  have quiet: "\<not> list_ex is_tree_build pevs" "\<not> list_ex is_warning pevs"
    by (auto simp: pull_request_request_def split: if_splits)
  show ?thesis
    by (rule that [OF synced(1),
          of "[Call (commit_request this options tc tree bref) (Inr (RCommit commit)),
               Call (update_ref_request this options b commit) (Inr RUnit)] @ pevs"])
      (simp_all add: synced(4) quiet commit_request_def update_ref_request_def)
qed

text \<open>
  Claim C7. Every run of \<^verbatim>\<open>syncWithTemplate\<close> has one of three shapes. It ends before any
  tree is built. Or the tree build on top of the tree of the branch head succeeds, and the
  run then builds no other tree and logs no warning. Or that build fails with an error
  \<open>e1\<close>: then the run logs the warning for \<open>e1\<close> (its only warning), runs the tree build
  once more from the world the failed build left, this time without a base tree, and
  builds no tree after that; if this second build fails with \<open>e2\<close>, the sync fails
  with the error made from \<open>e2\<close> right after logging it, and if it succeeds the run goes on
  to the commit request with the tree of the second build.
\<close>

theorem base_tree_failure_is_retried_once:
  assumes run: "syncWithTemplate api this options w = (r, w', evs)"
  shows "list_all is_prelude evs
    \<or> (\<exists>pre fs (cc :: git_commit) w5 t w6 ev1 post.
          createTree api this (targetOwner options) (targetRepo options) fs
            (Some (commit_tree_sha cc)) w5 = (Inr t, w6, ev1)
        \<and> evs = pre @ ev1 @ post \<and> list_all is_prelude pre
        \<and> \<not> list_ex is_tree_build post \<and> \<not> list_ex is_warning evs)
    \<or> (\<exists>pre fs (cc :: git_commit) w5 e1 w6 ev1 r2 w7 ev2 post.
          createTree api this (targetOwner options) (targetRepo options) fs
            (Some (commit_tree_sha cc)) w5 = (Inl e1, w6, ev1)
        \<and> createTree api this (targetOwner options) (targetRepo options) fs None w6
            = (r2, w7, ev2)
        \<and> evs = pre @ ev1 @ [Console Warn (base_tree_warning e1)] @ ev2 @ post
        \<and> list_all is_prelude pre \<and> \<not> list_ex is_tree_build post
        \<and> length (filter is_warning evs) = 1
        \<and> (case r2 of
              Inl e2 \<Rightarrow> r = Inl (sync_error e2) \<and> post = [Console Error (sync_failure_line api e2)]
            | Inr t \<Rightarrow> \<exists>tc bref out rest.
                post = Call (commit_request this options tc t bref) out # rest))"
  using run
proof (cases rule: sync_cases)
  case (failed_early e pre)
  then have "list_all is_prelude evs" by simp
  then show ?thesis by (rule disjI1)
next
  case (nothing_to_sync td sd tc tcs w3 fevs)
  from emitsD [OF emits_getAllFiles nothing_to_sync(2)]
  have "list_all is_prelude fevs"
    by (auto simp: list_all_iff enumeration_prelude)
  with nothing_to_sync(3) have "list_all is_prelude evs"
    by (simp add: sync_opening_prelude)
  then show ?thesis by (rule disjI1)
next
  case (written td sd tc tcs b files w3 w4 fevs bref cc w5 bevs rw wevs)
  let ?tO = "targetOwner options" and ?tR = "targetRepo options"
  define pre where "pre = sync_opening this options td sd (tc # tcs) @ fevs @ bevs"
  define tail where "tail = (case rw of Inl e \<Rightarrow> [Console Error (sync_failure_line api e)]
                               | Inr res \<Rightarrow> [])"
  from emitsD [OF emits_getAllFiles written(2)]
  have "list_all is_prelude fevs"
    by (auto simp: list_all_iff enumeration_prelude)
  with emitsD [OF emits_sync_branch written(4)]
  have pre: "list_all is_prelude pre"
    by (simp add: pre_def sync_opening_prelude)
  then have pre_quiet: "filter is_warning pre = []"
    by (rule filter_quiet) (rule prelude_no_warning)
  from written(6) have evs: "evs = pre @ wevs @ tail"
    and failed: "\<And>e. rw = Inl e \<Longrightarrow> r = Inl (sync_error e)"
    by (cases rw; simp add: pre_def tail_def)+
  have tail_quiet: "\<not> list_ex is_tree_build tail" "filter is_warning tail = []"
    by (cases rw; simp add: tail_def)+
  from written(5) show ?thesis
  proof (cases rule: sync_write_shape)
    case step: (1 rt w6 tevs post)
    from step(3,4) tail_quiet
    have post: "\<not> list_ex is_tree_build (post @ tail)" "filter is_warning (post @ tail) = []"
      by (auto simp: list_ex_iff filter_empty_conv)
    have shape: "evs = pre @ tevs @ post @ tail"
      by (simp add: evs step(2))
    from step(1) show ?thesis
    proof (cases rule: sync_tree_cases)
      case (built t)
      from emitsD [OF emits_createTree built(1)]
      have "filter is_warning tevs = []"
        by (rule filter_quiet) (rule build_no_warning)
      with pre_quiet post(2) have "\<not> list_ex is_warning evs"
        by (auto simp: shape list_ex_iff filter_empty_conv)
      with built(1) shape pre post(1) show ?thesis by blast
    next
      case (retried e1 w1 ev1 ev2)
      from emitsD [OF emits_createTree retried(1)]
      have ev1: "filter is_warning ev1 = []"
        by (rule filter_quiet) (rule build_no_warning)
      from emitsD [OF emits_createTree retried(2)]
      have ev2: "filter is_warning ev2 = []"
        by (rule filter_quiet) (rule build_no_warning)
      have shape': "evs = pre @ ev1 @ [Console Warn (base_tree_warning e1)] @ ev2 @ post @ tail"
        by (simp add: shape retried(3))
      have once: "length (filter is_warning evs) = 1"
        using post(2) by (simp add: shape' pre_quiet ev1 ev2)
      have outcome: "case rt of
              Inl e2 \<Rightarrow> r = Inl (sync_error e2)
                \<and> post @ tail = [Console Error (sync_failure_line api e2)]
            | Inr t \<Rightarrow> \<exists>tc bref out rest.
                post @ tail = Call (commit_request this options tc t bref) out # rest"
        using step(5) failed
        apply (cases rt)
         apply (auto simp: tail_def)
        apply blast
        done
      from retried(1,2) shape' pre post(1) once outcome show ?thesis by blast
    qed
  qed
qed


lemma rejected_base_run_warned: "list_ex is_warning (snd (snd rejected_base_run))"
  by code_simp

theorem base_tree_failure_is_retried_once_witness:
  "list_ex is_warning (snd (snd rejected_base_run))
   \<and> (\<exists>pre fs (cc :: git_commit) w5 e1 w6 ev1 r2 w7 ev2 post.
          createTree (script_api (sc_plain\<lparr>sc_base_tree_rejected := True\<rparr>)) the_cloner
            ''acme'' ''app'' fs (Some (commit_tree_sha cc)) w5 = (Inl e1, w6, ev1)
        \<and> createTree (script_api (sc_plain\<lparr>sc_base_tree_rejected := True\<rparr>)) the_cloner
            ''acme'' ''app'' fs None w6 = (r2, w7, ev2)
        \<and> snd (snd rejected_base_run)
            = pre @ ev1 @ [Console Warn (base_tree_warning e1)] @ ev2 @ post
        \<and> length (filter is_warning (snd (snd rejected_base_run))) = 1)"
proof -
  have run: "syncWithTemplate (script_api (sc_plain\<lparr>sc_base_tree_rejected := True\<rparr>)) the_cloner
      default_options w0
      = (fst rejected_base_run, fst (snd rejected_base_run), snd (snd rejected_base_run))"
    by (simp add: rejected_base_run_def)
  have target: "targetOwner default_options = ''acme''" "targetRepo default_options = ''app''"
    by (simp_all add: default_options_def)
  from rejected_base_run_warned prelude_no_warning
  have "\<not> list_all is_prelude (snd (snd rejected_base_run))"
    by (auto simp: list_all_iff list_ex_iff)
  with base_tree_failure_is_retried_once [OF run, unfolded target] rejected_base_run_warned
  show ?thesis by blast
qed


subsection \<open>Blob retries\<close>

lemma blob_attempt_first:
  assumes "createBlobWithRetry api this owner repo f 3 0 w = (r, w', evs)"
  shows "(\<exists>s. r = Inr s \<and>
            evs = [Call (GitCreateBlob (octokit this) owner repo (rt_base64 api (file_content f))
                           ''base64'') (Inr (RSha s))])
       \<or> (\<exists>e w1 rest.
            createBlobWithRetry api this owner repo f 3 1 w1 = (r, w', rest) \<and>
            evs = [Call (GitCreateBlob (octokit this) owner repo (rt_base64 api (file_content f))
                           ''base64'') (Inl e),
                   Sleep 2000] @ rest)"
  using assms
  by (subst (asm) createBlobWithRetry.simps)
    (auto simp: run_simps git_createBlob_def split: if_splits)

lemma blob_attempt_second:
  assumes "createBlobWithRetry api this owner repo f 3 1 w = (r, w', evs)"
  shows "(\<exists>s. r = Inr s \<and>
            evs = [Call (GitCreateBlob (octokit this) owner repo (rt_base64 api (file_content f))
                           ''base64'') (Inr (RSha s))])
       \<or> (\<exists>e w1 rest.
            createBlobWithRetry api this owner repo f 3 2 w1 = (r, w', rest) \<and>
            evs = [Call (GitCreateBlob (octokit this) owner repo (rt_base64 api (file_content f))
                           ''base64'') (Inl e),
                   Sleep 4000] @ rest)"
  using assms
  by (subst (asm) createBlobWithRetry.simps)
    (auto simp: run_simps git_createBlob_def numeral_2_eq_2 split: if_splits)

lemma blob_attempt_third:
  assumes "createBlobWithRetry api this owner repo f 3 2 w = (r, w', evs)"
  shows "(\<exists>s. r = Inr s \<and>
            evs = [Call (GitCreateBlob (octokit this) owner repo (rt_base64 api (file_content f))
                           ''base64'') (Inr (RSha s))])
       \<or> (\<exists>e. r = Inl e \<and>
            evs = [Call (GitCreateBlob (octokit this) owner repo (rt_base64 api (file_content f))
                           ''base64'') (Inl e),
                   Console Error (blob_failure_line (file_path f) e)])"
  using assms
  by (subst (asm) createBlobWithRetry.simps)
    (auto simp: run_simps git_createBlob_def split: if_splits)

lemma blob_attempts:
  assumes "createBlobWithRetry api this owner repo f 3 0 w = (r, w', evs)"
  shows "(\<exists>s. r = Inr s \<and>
            evs = [Call (GitCreateBlob (octokit this) owner repo (rt_base64 api (file_content f))
                           ''base64'') (Inr (RSha s))])
       \<or> (\<exists>e1 s. r = Inr s \<and>
            evs = [Call (GitCreateBlob (octokit this) owner repo (rt_base64 api (file_content f))
                           ''base64'') (Inl e1),
                   Sleep 2000,
                   Call (GitCreateBlob (octokit this) owner repo (rt_base64 api (file_content f))
                           ''base64'') (Inr (RSha s))])
       \<or> (\<exists>e1 e2 s. r = Inr s \<and>
            evs = [Call (GitCreateBlob (octokit this) owner repo (rt_base64 api (file_content f))
                           ''base64'') (Inl e1),
                   Sleep 2000,
                   Call (GitCreateBlob (octokit this) owner repo (rt_base64 api (file_content f))
                           ''base64'') (Inl e2),
                   Sleep 4000,
                   Call (GitCreateBlob (octokit this) owner repo (rt_base64 api (file_content f))
                           ''base64'') (Inr (RSha s))])
       \<or> (\<exists>e1 e2 e3. r = Inl e3 \<and>
            evs = [Call (GitCreateBlob (octokit this) owner repo (rt_base64 api (file_content f))
                           ''base64'') (Inl e1),
                   Sleep 2000,
                   Call (GitCreateBlob (octokit this) owner repo (rt_base64 api (file_content f))
                           ''base64'') (Inl e2),
                   Sleep 4000,
                   Call (GitCreateBlob (octokit this) owner repo (rt_base64 api (file_content f))
                           ''base64'') (Inl e3),
                   Console Error (blob_failure_line (file_path f) e3)])"
proof -
  let ?rq = "GitCreateBlob (octokit this) owner repo (rt_base64 api (file_content f)) ''base64''"
  from blob_attempt_first [OF assms] consider
    (first) s where "r = Inr s" "evs = [Call ?rq (Inr (RSha s))]"
    | (again) e1 w1 rest1 where
      "createBlobWithRetry api this owner repo f 3 1 w1 = (r, w', rest1)"
      "evs = [Call ?rq (Inl e1), Sleep 2000] @ rest1"
    by auto
  then show ?thesis
  proof cases
    case first
    then show ?thesis by simp
  next
    case again
    from blob_attempt_second [OF again(1)] consider
      (second) s where "r = Inr s" "rest1 = [Call ?rq (Inr (RSha s))]"
      | (once_more) e2 w2 rest2 where
        "createBlobWithRetry api this owner repo f 3 2 w2 = (r, w', rest2)"
        "rest1 = [Call ?rq (Inl e2), Sleep 4000] @ rest2"
      by auto
    then show ?thesis
    proof cases
      case second
      with again(2) show ?thesis by simp
    next
      case once_more
      from blob_attempt_third [OF once_more(1)] consider
        (third) s where "r = Inr s" "rest2 = [Call ?rq (Inr (RSha s))]"
        | (exhausted) e3 where "r = Inl e3"
          "rest2 = [Call ?rq (Inl e3), Console Error (blob_failure_line (file_path f) e3)]"
        by auto
      then show ?thesis
      proof cases
        case third
        with again(2) once_more(2) show ?thesis by simp
      next
        case exhausted
        with again(2) once_more(2) show ?thesis by simp
      qed
    qed
  qed
qed

lemma tree_line_differs: "tree_failure_line e' \<noteq> blob_failure_line p e"
  by (simp add: blob_failure_line_def tree_failure_line_def)

lemma blob_exhaustion_fails_createTree:
  assumes run: "createTree api this owner repo files baseTree w = (r, w', evs)"
    and logged: "Console Error (blob_failure_line p e) \<in> set evs"
  shows "(\<exists>e'. r = Inl e') \<and> \<not> list_ex is_create_tree evs"
proof -
  let ?line = "Console Error (blob_failure_line p e)"
  from run [unfolded createTree_def] show ?thesis
  proof (cases rule: bndE)
    case (fail e')
    then show ?thesis by (simp add: sleep_run)
  next
    case pause: (ok u w1 e1 r1)
    from pause(1) have e1: "e1 = [Sleep 1000]" by (simp add: sleep_run)
    from pause(2) show ?thesis
    proof (cases rule: bndE)
      case (fail e')
      from emitsD [OF emits_createTree_loop fail(1)]
      have "\<not> list_ex is_create_tree r1"
        by (rule list_ex_quiet) (rule blob_phase_no_tree)
      with fail(2) pause(3) e1 show ?thesis by simp
    next
      case loop: (ok entries w2 e2 r2)
      from emits_okD [OF emits_ok_createTree_loop loop(1)]
      have "?line \<notin> set e2" by (auto simp: list_all_iff)
      with logged pause(3) e1 loop(3) have "?line \<in> set r2" by simp
      with loop(2) show ?thesis
        by (auto simp: try_catch_run bnd_run console_run throw_run git_createTree_def call_run
            tree_line_differs tree_line_differs [THEN not_sym] split: if_splits)
    qed
  qed
qed


text \<open>
  Claim C5 (as the code has it). One file's blob is requested at most three times, with a
  pause of 2000 ms after the first rejection and of 4000 ms after the second; the third
  rejection is logged and raised again. A tree build that returns a tree has created a
  blob for every file and sent one tree request whose entries are the files in order; a
  tree build that has logged the exhaustion of a file's attempts fails and sends no tree
  request.
\<close>

theorem exhausted_blob_retries_fail_tree_build:
  assumes blob: "createBlobWithRetry api this owner repo f 3 0 w = (r, w', evs)"
    and build: "createTree api this owner repo files baseTree wt = (rt, wt', tevs)"
  shows "((\<exists>s. r = Inr s \<and>
            evs = [Call (GitCreateBlob (octokit this) owner repo (rt_base64 api (file_content f))
                           ''base64'') (Inr (RSha s))])
       \<or> (\<exists>e1 s. r = Inr s \<and>
            evs = [Call (GitCreateBlob (octokit this) owner repo (rt_base64 api (file_content f))
                           ''base64'') (Inl e1),
                   Sleep 2000,
                   Call (GitCreateBlob (octokit this) owner repo (rt_base64 api (file_content f))
                           ''base64'') (Inr (RSha s))])
       \<or> (\<exists>e1 e2 s. r = Inr s \<and>
            evs = [Call (GitCreateBlob (octokit this) owner repo (rt_base64 api (file_content f))
                           ''base64'') (Inl e1),
                   Sleep 2000,
                   Call (GitCreateBlob (octokit this) owner repo (rt_base64 api (file_content f))
                           ''base64'') (Inl e2),
                   Sleep 4000,
                   Call (GitCreateBlob (octokit this) owner repo (rt_base64 api (file_content f))
                           ''base64'') (Inr (RSha s))])
       \<or> (\<exists>e1 e2 e3. r = Inl e3 \<and>
            evs = [Call (GitCreateBlob (octokit this) owner repo (rt_base64 api (file_content f))
                           ''base64'') (Inl e1),
                   Sleep 2000,
                   Call (GitCreateBlob (octokit this) owner repo (rt_base64 api (file_content f))
                           ''base64'') (Inl e2),
                   Sleep 4000,
                   Call (GitCreateBlob (octokit this) owner repo (rt_base64 api (file_content f))
                           ''base64'') (Inl e3),
                   Console Error (blob_failure_line (file_path f) e3)]))
    \<and> (\<forall>t. rt = Inr t \<longrightarrow>
          (\<exists>pre entries.
             tevs = pre @ [Call (GitCreateTree (octokit this) owner repo entries
                                   (if truthy baseTree then baseTree else None)) (Inr (RSha t))]
             \<and> map entry_path entries = map file_path files
             \<and> list_all is_blob_attempt pre))
    \<and> (\<forall>p e. Console Error (blob_failure_line p e) \<in> set tevs \<longrightarrow>
          (\<exists>e'. rt = Inl e') \<and> \<not> list_ex is_create_tree tevs)"
proof (intro conjI allI impI)
  show "\<exists>pre entries.
      tevs = pre @ [Call (GitCreateTree (octokit this) owner repo entries
                            (if truthy baseTree then baseTree else None)) (Inr (RSha t))]
      \<and> map entry_path entries = map file_path files
      \<and> list_all is_blob_attempt pre" if "rt = Inr t" for t
    using build that by (intro createTree_ok) simp
  show "\<exists>e'. rt = Inl e'" if "Console Error (blob_failure_line p e) \<in> set tevs" for p e
    using blob_exhaustion_fails_createTree [OF build that] by simp
  show "\<not> list_ex is_create_tree tevs" if "Console Error (blob_failure_line p e) \<in> set tevs"
    for p e
    using blob_exhaustion_fails_createTree [OF build that] by simp
qed (rule blob_attempts [OF blob])

lemma exhausted_build_line:
  "Console Error (blob_failure_line ''a.txt'' (ApiError (Some 502) ''Bad Gateway''))
     \<in> set (snd (snd exhausted_build))"
  by code_simp

lemma exhausted_blob_result: "fst exhausted_blob = Inl (ApiError (Some 502) ''Bad Gateway'')"
  by code_simp

theorem exhausted_blob_retries_fail_tree_build_witness:
  "fst exhausted_blob = Inl (ApiError (Some 502) ''Bad Gateway'')
   \<and> Console Error (blob_failure_line ''a.txt'' (ApiError (Some 502) ''Bad Gateway''))
       \<in> set (snd (snd exhausted_build))
   \<and> (\<exists>e'. fst exhausted_build = Inl e')
   \<and> \<not> list_ex is_create_tree (snd (snd exhausted_build))
   \<and> (\<exists>e1 e2 e3. snd (snd exhausted_blob) =
         [Call (GitCreateBlob (octokit the_cloner) ''acme'' ''app''
                  (rt_base64 (script_api sc_plain) (file_content (hd two_files))) ''base64'')
            (Inl e1),
          Sleep 2000,
          Call (GitCreateBlob (octokit the_cloner) ''acme'' ''app''
                  (rt_base64 (script_api sc_plain) (file_content (hd two_files))) ''base64'')
            (Inl e2),
          Sleep 4000,
          Call (GitCreateBlob (octokit the_cloner) ''acme'' ''app''
                  (rt_base64 (script_api sc_plain) (file_content (hd two_files))) ''base64'')
            (Inl e3),
          Console Error (blob_failure_line (file_path (hd two_files)) e3)])"
proof -
  have blob: "createBlobWithRetry (script_api sc_plain) the_cloner ''acme'' ''app'' (hd two_files)
      3 0 \<lparr>created_refs = [], rejected_blobs = [''A'']\<rparr>
      = (fst exhausted_blob, fst (snd exhausted_blob), snd (snd exhausted_blob))"
    by (simp add: exhausted_blob_def)
  have build: "createTree (script_api sc_plain) the_cloner ''acme'' ''app'' two_files None
      \<lparr>created_refs = [], rejected_blobs = [''A'']\<rparr>
      = (fst exhausted_build, fst (snd exhausted_build), snd (snd exhausted_build))"
    by (simp add: exhausted_build_def)
  from exhausted_blob_retries_fail_tree_build [OF blob build] exhausted_build_line
    exhausted_blob_result
  show ?thesis by auto
qed

text \<open>Two files, the first one's blob rejected at each of its three attempts: the tree
  build fails with the error of the third attempt although the second file's blob was
  created, and no tree request is sent.\<close>

theorem exhausted_blob_fails_whole_build:
  "fst exhausted_build = Inl (ApiError (Some 502) ''Bad Gateway'')
   \<and> length (filter (\<lambda>ev. ev = Call (GitCreateBlob (Octokit (Some ''token'')) ''acme'' ''app''
                                       ''A'' ''base64'')
                                 (Inl (ApiError (Some 502) ''Bad Gateway'')))
               (snd (snd exhausted_build))) = 3
   \<and> Console Error ''Failed to create blob for a.txt: Bad Gateway''
       \<in> set (snd (snd exhausted_build))
   \<and> Call (GitCreateBlob (Octokit (Some ''token'')) ''acme'' ''app'' ''B'' ''base64'')
         (Inr (RSha ''b1''))
       \<in> set (snd (snd exhausted_build))
   \<and> \<not> list_ex is_create_tree (snd (snd exhausted_build))"
  by code_simp

subsection \<open>Nothing to sync\<close>

text \<open>
  Claim C6 (as the code has it). Let the three opening requests of \<^verbatim>\<open>syncWithTemplate\<close>
  succeed and let the enumeration of the template yield no file. If the template has at
  least one commit, the call returns the success result with \<^verbatim>\<open>filesCount: 0\<close> after the
  enumeration, and it has sent no request that changes the target. If the template has no
  commit, the call logs and raises \<^verbatim>\<open>Failed to sync with template: No commits found in
  template repository\<close> right after the opening requests.
\<close>

theorem sync_without_files:
  assumes target: "api_repos_get api (octokit this) (targetOwner options) (targetRepo options) w
      = (Inr td, w1)"
    and source: "api_repos_get api (src_client this options) (sourceOwner options)
        (sourceRepo options) w1 = (Inr sd, w2)"
    and commits: "api_repos_listCommits api (src_client this options) (sourceOwner options)
        (sourceRepo options) (Some (or_default (default_branch sd) ''main'')) 1 w2
      = (Inr tcs, w3)"
    and files: "getAllFiles api this (sourceOwner options) (sourceRepo options)
        (or_default (default_branch sd) ''main'') w3 = (Inr [], w4, fevs)"
  shows "syncWithTemplate api this options w =
      (if tcs = [] then
         (Inl (sync_error (js_Error ''No commits found in template repository'')), w3,
          sync_opening this options td sd []
            @ [Console Error
                 (sync_failure_line api (js_Error ''No commits found in template repository''))])
       else (Inr nothing_to_sync, w4, sync_opening this options td sd tcs @ fevs))
    \<and> \<not> list_ex is_write (sync_opening this options td sd tcs @ fevs)"
proof
  obtain rb wb bevs where "sync_branch_name api options (or_default (default_branch td) ''main'') w3
      = (rb, wb, bevs)"
    by (rule prod_cases3)
  with sync_branch_name_run [OF this]
  obtain b where name: "sync_branch_name api options (or_default (default_branch td) ''main'') w3
      = (Inr b, w3, [])"
    by simp
  show "syncWithTemplate api this options w =
      (if tcs = [] then
         (Inl (sync_error (js_Error ''No commits found in template repository'')), w3,
          sync_opening this options td sd []
            @ [Console Error
                 (sync_failure_line api (js_Error ''No commits found in template repository''))])
       else (Inr nothing_to_sync, w4, sync_opening this options td sd tcs @ fevs))"
    unfolding syncWithTemplate_def Let_def
    using target source commits files name
    by (cases tcs)
      (simp_all add: try_catch_def bnd_def call_def repos_get_def repos_listCommits_def
        throw_def ret_def console_def sync_opening_def)
  from emitsD [OF emits_getAllFiles files]
  have "\<not> list_ex is_write fevs"
    by (rule list_ex_quiet) (simp add: enumeration_quiet)
  then show "\<not> list_ex is_write (sync_opening this options td sd tcs @ fevs)"
    by (simp add: sync_opening_def)
qed

lemma no_files_enumeration:
  "getAllFiles (script_api (sc_plain\<lparr>sc_template_tree := []\<rparr>)) the_cloner ''acme'' ''template''
     ''main'' w0
   = (Inr [], w0,
      [Call (GitGetRef (Octokit (Some ''token'')) ''acme'' ''template'' ''heads/main'')
         (Inr (RRef \<lparr>object_sha = ''c0''\<rparr>)),
       Call (GitGetTree (Octokit (Some ''token'')) ''acme'' ''template'' ''c0'' ''true'')
         (Inr (RTree []))])"
  by code_simp

theorem sync_without_files_witness:
  "fst no_files_run = Inr nothing_to_sync
   \<and> filesCount nothing_to_sync = 0
   \<and> length (snd (snd no_files_run)) = 5
   \<and> \<not> list_ex is_write (snd (snd no_files_run))"
proof -
  let ?api = "script_api (sc_plain\<lparr>sc_template_tree := []\<rparr>)"
  let ?repo = "\<lambda>name. \<lparr>default_branch = Some ''main'', description = None,
      html_url = ''https://github.com/acme/'' @ name\<rparr>"
  have target: "api_repos_get ?api (octokit the_cloner) (targetOwner default_options)
      (targetRepo default_options) w0 = (Inr (?repo ''app''), w0)"
    by (simp add: script_api_def default_options_def)
  have source: "api_repos_get ?api (src_client the_cloner default_options)
      (sourceOwner default_options) (sourceRepo default_options) w0
      = (Inr (?repo ''template''), w0)"
    by (simp add: script_api_def default_options_def)
  have commits: "api_repos_listCommits ?api (src_client the_cloner default_options)
      (sourceOwner default_options) (sourceRepo default_options)
      (Some (or_default (default_branch (?repo ''template'')) ''main'')) 1 w0
      = (Inr [template_head], w0)"
    by (simp add: script_api_def sc_plain_def)
  have files: "getAllFiles ?api the_cloner (sourceOwner default_options)
      (sourceRepo default_options) (or_default (default_branch (?repo ''template'')) ''main'') w0
      = (Inr [], w0,
         [Call (GitGetRef (Octokit (Some ''token'')) ''acme'' ''template'' ''heads/main'')
            (Inr (RRef \<lparr>object_sha = ''c0''\<rparr>)),
          Call (GitGetTree (Octokit (Some ''token'')) ''acme'' ''template'' ''c0'' ''true'')
            (Inr (RTree []))])"
    using no_files_enumeration by (simp add: default_options_def or_default_def truthy_def)
  from sync_without_files [OF target source commits files]
  show ?thesis
    by (simp add: no_files_run_def nothing_to_sync_def sync_opening_def)
qed

text \<open>A template without commits and without files: the call raises.\<close>

theorem sync_of_empty_template_raises:
  "fst no_commits_run
     = Inl (ApiError None ''Failed to sync with template: No commits found in template repository'')
   \<and> snd (snd no_commits_run) =
       [Call (ReposGet (Octokit (Some ''token'')) ''acme'' ''app'')
          (Inr (RRepo \<lparr>default_branch = Some ''main'', description = None,
                       html_url = ''https://github.com/acme/app''\<rparr>)),
        Call (ReposGet (Octokit (Some ''token'')) ''acme'' ''template'')
          (Inr (RRepo \<lparr>default_branch = Some ''main'', description = None,
                       html_url = ''https://github.com/acme/template''\<rparr>)),
        Call (ReposListCommits (Octokit (Some ''token'')) ''acme'' ''template'' (Some ''main'') 1)
          (Inr (RCommits [])),
        Console Error
          ''Error syncing with template: Error: No commits found in template repository'']"
  by code_simp


subsection \<open>The two clone strategies\<close>

lemma returns_case_prod:
  "(\<And>a b. returns Q (f a b)) \<Longrightarrow> returns Q (case_prod f x)"
  by (cases x) simp

lemma returns_cloneUsingContentsAPI:
  "returns clone_success (cloneUsingContentsAPI api this options)"
  unfolding cloneUsingContentsAPI_def Let_def
  by (intro returns_bnd returns_if returns_ret) simp_all

lemma returns_cloneUsingGitAPI:
  "returns clone_success (cloneUsingGitAPI api this options)"
  unfolding cloneUsingGitAPI_def Let_def
  by (intro returns_bnd returns_if returns_ret returns_throw returns_case_prod) simp_all

text \<open>
  Claim C2. A run of \<^verbatim>\<open>cloneAsTemplate\<close> has one of three outcomes. The contents strategy
  returns a result, which is returned as it is. Or the contents strategy fails: a warning
  is logged and the git strategy runs from the world the contents strategy left; if it
  returns a result, that result is returned. Or the git strategy fails too, with an error
  \<open>fe\<close>: then \<^verbatim>\<open>Both approaches failed\<close> is logged and the error raised has the message
  \<^verbatim>\<open>Failed to clone repository using both methods. Last error: \<close> followed by the message
  of \<open>fe\<close>. Every result returned carries \<^verbatim>\<open>success: true\<close>.
\<close>

theorem cloneAsTemplate_falls_back_once:
  assumes run: "cloneAsTemplate api this options w = (r, w', evs)"
  shows "(\<exists>res. cloneUsingContentsAPI api this options w = (Inr res, w', evs)
            \<and> r = Inr res \<and> clone_success res)
       \<or> (\<exists>e w1 e1 e2 res.
            cloneUsingContentsAPI api this options w = (Inl e, w1, e1)
            \<and> cloneUsingGitAPI api this options w1 = (Inr res, w', e2)
            \<and> evs = e1 @ [Console Warn (contents_failed_warning e)] @ e2
            \<and> r = Inr res \<and> clone_success res)
       \<or> (\<exists>e w1 e1 e2 fe.
            cloneUsingContentsAPI api this options w = (Inl e, w1, e1)
            \<and> cloneUsingGitAPI api this options w1 = (Inl fe, w', e2)
            \<and> evs = e1 @ [Console Warn (contents_failed_warning e)] @ e2
                  @ [Console Error ''Both approaches failed'']
            \<and> r = Inl (both_failed_error fe)
            \<and> err_message (both_failed_error fe)
                = ''Failed to clone repository using both methods. Last error: ''
                    @ err_message fe)"
proof -
  have message: "err_message (both_failed_error fe)
      = ''Failed to clone repository using both methods. Last error: '' @ err_message fe" for fe
    by (simp add: both_failed_error_def js_Error_def)
  from run [unfolded cloneAsTemplate_def] consider
    (contents) res where "cloneUsingContentsAPI api this options w = (Inr res, w', evs)"
      "r = Inr res"
    | (git) e w1 e1 e2 res where
      "cloneUsingContentsAPI api this options w = (Inl e, w1, e1)"
      "cloneUsingGitAPI api this options w1 = (Inr res, w', e2)"
      "evs = e1 @ [Console Warn (contents_failed_warning e)] @ e2" "r = Inr res"
    | (neither) e w1 e1 e2 fe where
      "cloneUsingContentsAPI api this options w = (Inl e, w1, e1)"
      "cloneUsingGitAPI api this options w1 = (Inl fe, w', e2)"
      "evs = e1 @ [Console Warn (contents_failed_warning e)] @ e2
         @ [Console Error ''Both approaches failed'']"
      "r = Inl (both_failed_error fe)"
    unfolding try_catch_run bnd_run console_run throw_run by fastforce
  then show ?thesis
  proof cases
    case contents
    with returnsD [OF returns_cloneUsingContentsAPI contents(1)] show ?thesis by blast
  next
    case git
    with returnsD [OF returns_cloneUsingGitAPI git(2)] show ?thesis by blast
  next
    case neither
    with message [of fe] show ?thesis by blast
  qed
qed


lemma plain_clone_run_returns: "\<not> isl (fst plain_clone_run)"
  by code_simp

lemma rejected_clone_run_raises: "isl (fst rejected_clone_run)"
  by code_simp

theorem cloneAsTemplate_falls_back_once_witness:
  "\<not> isl (fst plain_clone_run)
   \<and> (\<exists>res. fst plain_clone_run = Inr res \<and> clone_success res)
   \<and> isl (fst rejected_clone_run)
   \<and> (\<exists>fe. fst rejected_clone_run = Inl (both_failed_error fe)
        \<and> err_message (both_failed_error fe)
            = ''Failed to clone repository using both methods. Last error: '' @ err_message fe)"
proof -
  have plain: "cloneAsTemplate (script_api sc_plain) the_cloner clone_options w0
      = (fst plain_clone_run, fst (snd plain_clone_run), snd (snd plain_clone_run))"
    by (simp add: plain_clone_run_def)
  have rejected: "cloneAsTemplate (script_api (sc_plain\<lparr>sc_auth_rejected := True\<rparr>)) the_cloner
      clone_options w0
      = (fst rejected_clone_run, fst (snd rejected_clone_run), snd (snd rejected_clone_run))"
    by (simp add: rejected_clone_run_def)
  from cloneAsTemplate_falls_back_once [OF plain] plain_clone_run_returns
  have returned: "\<exists>res. fst plain_clone_run = Inr res \<and> clone_success res"
    by auto
  from cloneAsTemplate_falls_back_once [OF rejected] rejected_clone_run_raises
  have raised: "\<exists>fe. fst rejected_clone_run = Inl (both_failed_error fe)
        \<and> err_message (both_failed_error fe)
            = ''Failed to clone repository using both methods. Last error: '' @ err_message fe"
    by auto
  from plain_clone_run_returns returned rejected_clone_run_raises raised
  show ?thesis by (intro conjI)
qed


subsection \<open>The drift check\<close>















end
